theory Spec2Isabelle
  imports Complex_Main
begin

section \<open>Document model (ShortStoryStructs.h)\<close>

text \<open>
  The enumerations of the header are scoped (\<^verbatim>\<open>enum class\<close>), so several of them share
  member names (\<^verbatim>\<open>None\<close>, \<^verbatim>\<open>Standard\<close>, \<^verbatim>\<open>Wait\<close>). Each constructor below carries
  the name of its enumeration as a prefix. Every \<^verbatim>\<open>float\<close> of the source is modelled as a
  real number: additions and comparisons are the exact ones, rounding is not modelled.
\<close>

datatype EStoryLineAnimation =
  Anim_Typewriter | Anim_LeftToRight | Anim_Paragraph | Anim_TopDown | Anim_WordRain | Anim_Snake

datatype EStorySpeed = Speed_Standard | Speed_Fast | Speed_Slow

datatype EStoryPauseDuration =
  Pause_None | Pause_Short | Pause_Standard | Pause_Long | Pause_LineBreak | Pause_Wait

datatype EStoryEffect = Effect_None | Effect_ShakeLow | Effect_ShakeMed | Effect_ShakeHigh | Effect_Storm

datatype EStoryTransition = Transition_Instant | Transition_Fade | Transition_Crossfade

datatype EStoryTimedEventType = Event_SFX | Event_VFX | Event_Wait | Event_BackgroundChange

record FStoryAnimationTiming =
  PerLetter :: real
  ExtraAtSpace :: real
  ExtraAtPeriod :: real
  ExtraAtComma :: real
  BlockDuration :: real
  ExtraAtColon :: real

text \<open>The member initialisers of \<^verbatim>\<open>FStoryAnimationTiming\<close>.\<close>

definition FStoryAnimationTiming_default :: FStoryAnimationTiming where
  "FStoryAnimationTiming_default =
     \<lparr>PerLetter = 4 / 100, ExtraAtSpace = 8 / 100, ExtraAtPeriod = 3 / 10,
      ExtraAtComma = 2 / 10, BlockDuration = 2, ExtraAtColon = 4 / 10\<rparr>"

record FVector2D =
  X :: real
  Y :: real

definition ZeroVector :: FVector2D where
  "ZeroVector = \<lparr>X = 0, Y = 0\<rparr>"

record FStoryTimedEvent =
  EventType :: EStoryTimedEventType
  StartTime :: real
  Duration :: real
  AssetPath :: string

definition FStoryTimedEvent_default :: FStoryTimedEvent where
  "FStoryTimedEvent_default =
     \<lparr>EventType = Event_SFX, StartTime = 0, Duration = 0, AssetPath = []\<rparr>"

record FStoryLine =
  Text :: string
  AnimationType :: EStoryLineAnimation
  Speed :: EStorySpeed
  PauseDuration :: EStoryPauseDuration
  Effect :: EStoryEffect
  PositionOffset :: FVector2D

definition FStoryLine_default :: FStoryLine where
  "FStoryLine_default =
     \<lparr>Text = [], AnimationType = Anim_Typewriter, Speed = Speed_Standard,
      PauseDuration = Pause_None, Effect = Effect_None, PositionOffset = ZeroVector\<rparr>"

text \<open>
  \<^verbatim>\<open>Background\<close> is a soft object pointer: the model keeps the object path it was built
  from, or \<open>None\<close> for the null pointer. \<^verbatim>\<open>RuntimeTexture\<close> is filled by the texture
  loader only and is left out.
\<close>

record FStoryScreen =
  Name :: string
  Background :: "string option"
  BackgroundPath :: string
  TransitionType :: EStoryTransition
  Lines :: "FStoryLine list"
  TimedEvents :: "FStoryTimedEvent list"

definition FStoryScreen_default :: FStoryScreen where
  "FStoryScreen_default =
     \<lparr>Name = [], Background = None, BackgroundPath = [], TransitionType = Transition_Fade,
      Lines = [], TimedEvents = []\<rparr>"

record FShortStory =
  Title :: string
  OST :: string
  Screens :: "FStoryScreen list"
  SourceFileName :: string

definition FShortStory_default :: FShortStory where
  "FShortStory_default = \<lparr>Title = [], OST = [], Screens = [], SourceFileName = []\<rparr>"

definition IsValid :: "FShortStory \<Rightarrow> bool" where
  "IsValid Story \<longleftrightarrow> Title Story \<noteq> [] \<and> length (Screens Story) > 0"

section \<open>Player state (ShortStorySubsystem.h)\<close>

datatype EStoryPlaybackState =
  State_Idle | State_PlayingLine | State_PausingAfterLine | State_TransitioningScreen | State_Completed

text \<open>
  The members of \<^verbatim>\<open>UShortStorySubsystem\<close> that playback reads or writes. The member
  \<^verbatim>\<open>PauseDuration\<close> (seconds) is named \<open>PauseDurationSeconds\<close> here, since the line's
  field of the same name is the pause kind. \<open>TickerHandleValid\<close> is
  \<^verbatim>\<open>TickerHandle.IsValid()\<close>: the player is attached to the core ticker.
\<close>

record UShortStorySubsystem =
  SpeedTimings :: "EStorySpeed \<rightharpoonup> FStoryAnimationTiming"
  PauseDurations :: "EStoryPauseDuration \<rightharpoonup> real"
  ScreenTransitionPauseSeconds :: real
  FadeWindowSeconds :: real
  LineBreakPercent :: real
  TransitionElapsedTime :: real
  CurrentStory :: FShortStory
  CurrentScreenIndex :: nat
  CurrentLineIndex :: nat
  LineElapsedTime :: real
  LineDuration :: real
  PauseElapsedTime :: real
  PauseDurationSeconds :: real
  ScreenElapsedTime :: real
  LineStartTimes :: "real list"
  bIsPlaying :: bool
  bIsPaused :: bool
  CurrentState :: EStoryPlaybackState
  ProcessedTimedEventIndices :: "nat set"
  TickerHandleValid :: bool

text \<open>A freshly constructed subsystem: the member initialisers of the header.\<close>

definition UShortStorySubsystem_init :: UShortStorySubsystem where
  "UShortStorySubsystem_init =
     \<lparr>SpeedTimings = Map.empty, PauseDurations = Map.empty,
      ScreenTransitionPauseSeconds = 15 / 10, FadeWindowSeconds = 5 / 10,
      LineBreakPercent = 66 / 100, TransitionElapsedTime = 0,
      CurrentStory = FShortStory_default, CurrentScreenIndex = 0, CurrentLineIndex = 0,
      LineElapsedTime = 0, LineDuration = 0, PauseElapsedTime = 0, PauseDurationSeconds = 0,
      ScreenElapsedTime = 0, LineStartTimes = [], bIsPlaying = False, bIsPaused = False,
      CurrentState = State_Idle, ProcessedTimedEventIndices = {}, TickerHandleValid = False\<rparr>"

section \<open>Duration calculator (ShortStorySubsystem.cpp)\<close>

text \<open>
  \<^verbatim>\<open>FChar::IsWhitespace\<close> on ASCII: space, tab, line feed, vertical tab, form feed,
  carriage return. The characters of the model are bytes; the spaces the engine knows
  outside ASCII are not told apart.
\<close>

definition IsWhitespace :: "char \<Rightarrow> bool" where
  "IsWhitespace c \<longleftrightarrow>
     c = CHR '' '' \<or> c = CHR 0x09 \<or> c = CHR 0x0A \<or> c = CHR 0x0B \<or> c = CHR 0x0C \<or> c = CHR 0x0D"

definition GetSpeedTiming :: "UShortStorySubsystem \<Rightarrow> EStorySpeed \<Rightarrow> FStoryAnimationTiming" where
  "GetSpeedTiming s Speed' =
     (case SpeedTimings s Speed' of
        Some Found \<Rightarrow> Found
      | None \<Rightarrow>
          (case SpeedTimings s Speed_Standard of
             Some Standard \<Rightarrow> Standard
           | None \<Rightarrow> FStoryAnimationTiming_default))"

definition GetPauseDuration :: "UShortStorySubsystem \<Rightarrow> EStoryPauseDuration \<Rightarrow> real" where
  "GetPauseDuration s PauseType =
     (if PauseType = Pause_LineBreak \<or> PauseType = Pause_None
      then FadeWindowSeconds s * LineBreakPercent s
      else (case PauseDurations s PauseType of Some Found \<Rightarrow> Found | None \<Rightarrow> 0))"

text \<open>The body of the loop of \<^verbatim>\<open>CalculateTypewriterDuration\<close>, for one character.\<close>

definition typewriter_add :: "FStoryAnimationTiming \<Rightarrow> char \<Rightarrow> real \<Rightarrow> real" where
  "typewriter_add Timing Ch Total0 =
     (let Total = Total0 + PerLetter Timing in
      if IsWhitespace Ch then Total + ExtraAtSpace Timing
      else if Ch = CHR ''.'' \<or> Ch = CHR ''!'' \<or> Ch = CHR ''?'' then Total + ExtraAtPeriod Timing
      else if Ch = CHR '','' then Total + ExtraAtComma Timing
      else if Ch = CHR '';'' \<or> Ch = CHR '':'' then
        (if Ch = CHR '':'' then Total + ExtraAtColon Timing else Total + ExtraAtComma Timing)
      else Total)"

definition CalculateTypewriterDuration :: "UShortStorySubsystem \<Rightarrow> string \<Rightarrow> EStorySpeed \<Rightarrow> real" where
  "CalculateTypewriterDuration s Text' Speed' =
     (let Timing = GetSpeedTiming s Speed' in fold (typewriter_add Timing) Text' 0)"

definition CalculateLineDuration :: "UShortStorySubsystem \<Rightarrow> FStoryLine \<Rightarrow> real" where
  "CalculateLineDuration s Line =
     (if AnimationType Line \<noteq> Anim_Typewriter
      then (let Timing = GetSpeedTiming s (Speed Line) in BlockDuration Timing)
      else CalculateTypewriterDuration s (Text Line) (Speed Line))"

text \<open>
  The loop of \<^verbatim>\<open>GetCharacterIndexAtTime\<close>: the argument list is the text from index
  \<open>i\<close> on, \<open>CurrentTime\<close> the running clock.
\<close>

fun char_index_loop ::
  "FStoryAnimationTiming \<Rightarrow> real \<Rightarrow> nat \<Rightarrow> string \<Rightarrow> nat \<Rightarrow> real \<Rightarrow> nat" where
  "char_index_loop Timing Time TotalChars [] i CurrentTime = TotalChars"
| "char_index_loop Timing Time TotalChars (Ch # rest) i CurrentTime =
     (let TypeTime = PerLetter Timing;
          ExtraTime =
            (if IsWhitespace Ch then ExtraAtSpace Timing
             else if Ch = CHR ''.'' \<or> Ch = CHR ''!'' \<or> Ch = CHR ''?'' then ExtraAtPeriod Timing
             else if Ch = CHR '','' then ExtraAtComma Timing
             else if Ch = CHR '';'' \<or> Ch = CHR '':'' then
               (if Ch = CHR '':'' then ExtraAtColon Timing else ExtraAtComma Timing)
             else 0)
      in if Time < CurrentTime + TypeTime then i
         else if Time < (CurrentTime + TypeTime) + ExtraTime then i + 1
         else char_index_loop Timing Time TotalChars rest (i + 1) ((CurrentTime + TypeTime) + ExtraTime))"

definition GetCharacterIndexAtTime :: "UShortStorySubsystem \<Rightarrow> string \<Rightarrow> EStorySpeed \<Rightarrow> real \<Rightarrow> nat" where
  "GetCharacterIndexAtTime s Text' Speed' Time =
     (if Time \<le> 0 then 0
      else char_index_loop (GetSpeedTiming s Speed') Time (length Text') Text' 0 0)"

section \<open>Playback state machine (ShortStorySubsystem.cpp)\<close>

definition GetCurrentLine :: "UShortStorySubsystem \<Rightarrow> FStoryLine" where
  "GetCurrentLine s =
     (if \<not> bIsPlaying s \<or> CurrentScreenIndex s \<ge> length (Screens (CurrentStory s))
      then FStoryLine_default
      else (let CurrentScreen = Screens (CurrentStory s) ! CurrentScreenIndex s in
            if CurrentLineIndex s \<ge> length (Lines CurrentScreen) then FStoryLine_default
            else Lines CurrentScreen ! CurrentLineIndex s))"

text \<open>
  The scan for the end of a block in \<^verbatim>\<open>StartLine\<close>: \<open>i\<close> runs from \<open>LineIndex + 1\<close>
  and the loop breaks at the first line of another animation.
\<close>

function block_end_loop :: "FStoryLine list \<Rightarrow> EStoryLineAnimation \<Rightarrow> nat \<Rightarrow> nat \<Rightarrow> nat" where
  "block_end_loop Ls Anim i BlockEndIndex =
     (if i < length Ls
      then (if AnimationType (Ls ! i) = Anim then block_end_loop Ls Anim (i + 1) i
            else BlockEndIndex)
      else BlockEndIndex)"
  by pat_completeness auto
termination
  by (relation "measure (\<lambda>(Ls, Anim, i, BlockEndIndex). length Ls - i)") auto

declare block_end_loop.simps [simp del]

definition CascadeDelay :: real where
  "CascadeDelay = 2 / 10"

text \<open>
  The timing loop of a block, \<open>i\<close> from \<open>LineIndex\<close> to \<open>BlockEndIndex\<close>. The loop state
  is the start-time array, \<open>CurrentDelay\<close> and \<open>MaxFinishTime\<close>; \<open>Anim\<close> is the animation
  of the line that opened the block.
\<close>

function block_timing_loop ::
  "UShortStorySubsystem \<Rightarrow> FStoryLine list \<Rightarrow> EStoryLineAnimation \<Rightarrow> nat \<Rightarrow> nat \<Rightarrow>
   real list \<times> real \<times> real \<Rightarrow> real list \<times> real \<times> real" where
  "block_timing_loop s Ls Anim BlockEndIndex i (Starts, CurrentDelay, MaxFinishTime) =
     (if i \<le> BlockEndIndex
      then
        (let Starts1 = (if i < length Starts then Starts[i := ScreenElapsedTime s + CurrentDelay] else Starts);
             CurrentDelay1 = (if Anim = Anim_TopDown then CurrentDelay + CascadeDelay else CurrentDelay);
             ThisDuration = CalculateLineDuration s (Ls ! i);
             FinishTime = CurrentDelay1 + ThisDuration;
             MaxFinishTime1 = (if FinishTime > MaxFinishTime then FinishTime else MaxFinishTime)
         in block_timing_loop s Ls Anim BlockEndIndex (i + 1) (Starts1, CurrentDelay1, MaxFinishTime1))
      else (Starts, CurrentDelay, MaxFinishTime))"
  by pat_completeness auto
termination
  by (relation "measure (\<lambda>(s, Ls, Anim, BlockEndIndex, i, st). Suc BlockEndIndex - i)") auto

declare block_timing_loop.simps [simp del]

definition StartLine :: "nat \<Rightarrow> UShortStorySubsystem \<Rightarrow> UShortStorySubsystem" where
  "StartLine LineIndex s =
     (if CurrentScreenIndex s \<ge> length (Screens (CurrentStory s)) then s
      else
        (let CurrentScreen = Screens (CurrentStory s) ! CurrentScreenIndex s in
         if LineIndex \<ge> length (Lines CurrentScreen) then s
         else
           (let Line = Lines CurrentScreen ! LineIndex;
                bIsBlockAnimation =
                  (AnimationType Line = Anim_Paragraph \<or> AnimationType Line = Anim_TopDown);
                s1 =
                  (if bIsBlockAnimation
                   then
                     (let BlockEndIndex =
                            block_end_loop (Lines CurrentScreen) (AnimationType Line) (LineIndex + 1) LineIndex;
                          (Starts, CurrentDelay, MaxFinishTime) =
                            block_timing_loop s (Lines CurrentScreen) (AnimationType Line) BlockEndIndex
                              LineIndex (LineStartTimes s, 0, 0)
                      in s\<lparr>LineStartTimes := Starts, LineDuration := MaxFinishTime,
                           CurrentLineIndex := BlockEndIndex\<rparr>)
                   else
                     s\<lparr>LineDuration := CalculateTypewriterDuration s (Text Line) (Speed Line),
                       LineStartTimes :=
                         (if LineIndex < length (LineStartTimes s)
                          then (LineStartTimes s)[LineIndex := ScreenElapsedTime s]
                          else LineStartTimes s)\<rparr>)
            in s1\<lparr>LineElapsedTime := 0, CurrentState := State_PlayingLine\<rparr>)))"

definition StartPause :: "UShortStorySubsystem \<Rightarrow> UShortStorySubsystem" where
  "StartPause s =
     (let CurrentLine = GetCurrentLine s in
      s\<lparr>PauseDurationSeconds := GetPauseDuration s (PauseDuration CurrentLine),
        PauseElapsedTime := 0, CurrentState := State_PausingAfterLine\<rparr>)"

definition AdvanceToNextScreen :: "UShortStorySubsystem \<Rightarrow> UShortStorySubsystem" where
  "AdvanceToNextScreen s0 =
     (let s = s0\<lparr>CurrentScreenIndex := CurrentScreenIndex s0 + 1\<rparr> in
      if CurrentScreenIndex s < length (Screens (CurrentStory s))
      then
        (let NextScreen = Screens (CurrentStory s) ! CurrentScreenIndex s in
         s\<lparr>CurrentLineIndex := 0, ScreenElapsedTime := 0, ProcessedTimedEventIndices := {},
           LineStartTimes := replicate (length (Lines NextScreen)) (- 1),
           CurrentState := State_TransitioningScreen\<rparr>)
      else
        s\<lparr>bIsPlaying := False, CurrentState := State_Completed, TickerHandleValid := False\<rparr>)"

definition AdvanceToNextLineOrScreen :: "UShortStorySubsystem \<Rightarrow> UShortStorySubsystem" where
  "AdvanceToNextLineOrScreen s0 =
     (if CurrentScreenIndex s0 \<ge> length (Screens (CurrentStory s0)) then s0
      else
        (let CurrentScreen = Screens (CurrentStory s0) ! CurrentScreenIndex s0;
             s = s0\<lparr>CurrentLineIndex := CurrentLineIndex s0 + 1\<rparr>
         in if CurrentLineIndex s < length (Lines CurrentScreen)
            then StartLine (CurrentLineIndex s) s
            else AdvanceToNextScreen s))"

text \<open>The scan of \<^verbatim>\<open>ProcessTimedEvents\<close> over the event indices of the current screen.\<close>

definition ProcessTimedEvents :: "UShortStorySubsystem \<Rightarrow> UShortStorySubsystem" where
  "ProcessTimedEvents s =
     (if CurrentScreenIndex s \<ge> length (Screens (CurrentStory s)) then s
      else
        (let CurrentScreen = Screens (CurrentStory s) ! CurrentScreenIndex s in
         fold (\<lambda>i t.
                 if i \<in> ProcessedTimedEventIndices t then t
                 else if ScreenElapsedTime t \<ge> StartTime (TimedEvents CurrentScreen ! i)
                 then t\<lparr>ProcessedTimedEventIndices := insert i (ProcessedTimedEventIndices t)\<rparr>
                 else t)
              [0 ..< length (TimedEvents CurrentScreen)] s))"

definition OnScreenTransitionComplete :: "UShortStorySubsystem \<Rightarrow> UShortStorySubsystem" where
  "OnScreenTransitionComplete s =
     (if CurrentScreenIndex s \<ge> length (Screens (CurrentStory s)) then s
      else
        (let CurrentScreen = Screens (CurrentStory s) ! CurrentScreenIndex s in
         if length (Lines CurrentScreen) > 0 then StartLine 0 s else AdvanceToNextScreen s))"

text \<open>
  \<^verbatim>\<open>Tick\<close> returns \<^verbatim>\<open>true\<close> ("keep ticking") on every path; the model returns the
  state it leaves behind.
\<close>

definition Tick :: "real \<Rightarrow> UShortStorySubsystem \<Rightarrow> UShortStorySubsystem" where
  "Tick DeltaTime s0 =
     (if \<not> bIsPlaying s0 \<or> bIsPaused s0 then s0
      else
        (let s1 = s0\<lparr>ScreenElapsedTime := ScreenElapsedTime s0 + DeltaTime\<rparr>;
             s = ProcessTimedEvents s1
         in case CurrentState s of
              State_PlayingLine \<Rightarrow>
                (let t = s\<lparr>LineElapsedTime := LineElapsedTime s + DeltaTime\<rparr> in
                 if LineElapsedTime t \<ge> LineDuration t then StartPause t else t)
            | State_PausingAfterLine \<Rightarrow>
                (let t = s\<lparr>PauseElapsedTime := PauseElapsedTime s + DeltaTime\<rparr> in
                 if PauseElapsedTime t \<ge> PauseDurationSeconds t then AdvanceToNextLineOrScreen t else t)
            | State_TransitioningScreen \<Rightarrow>
                (let t = s\<lparr>TransitionElapsedTime := TransitionElapsedTime s + DeltaTime\<rparr> in
                 if TransitionElapsedTime t \<ge> ScreenTransitionPauseSeconds t
                 then OnScreenTransitionComplete t else t)
            | State_Completed \<Rightarrow> s
            | State_Idle \<Rightarrow> s))"

text \<open>
  \<^verbatim>\<open>StartStory\<close> after \<^verbatim>\<open>LoadStory\<close>: the argument is the loaded story, or \<open>None\<close>
  when loading failed. The result is the return value and the state.
\<close>

definition StartStory :: "FShortStory option \<Rightarrow> UShortStorySubsystem \<Rightarrow> bool \<times> UShortStorySubsystem" where
  "StartStory Loaded s =
     (case Loaded of
        None \<Rightarrow> (False, s)
      | Some LoadedStory \<Rightarrow>
          if length (Screens LoadedStory) = 0 then (False, s)
          else if length (Lines (Screens LoadedStory ! 0)) = 0 then (False, s)
          else
            (True,
             StartLine 0
               (s\<lparr>CurrentStory := LoadedStory, CurrentScreenIndex := 0, CurrentLineIndex := 0,
                  ScreenElapsedTime := 0, ProcessedTimedEventIndices := {},
                  LineStartTimes := replicate (length (Lines (Screens LoadedStory ! 0))) (- 1),
                  bIsPlaying := True, bIsPaused := False, CurrentState := State_PlayingLine,
                  TickerHandleValid := True\<rparr>)))"

definition StopStory :: "UShortStorySubsystem \<Rightarrow> UShortStorySubsystem" where
  "StopStory s =
     (if \<not> bIsPlaying s then s
      else
        s\<lparr>bIsPlaying := False, bIsPaused := False, CurrentState := State_Idle,
          CurrentScreenIndex := 0, CurrentLineIndex := 0, ScreenElapsedTime := 0,
          LineElapsedTime := 0, PauseElapsedTime := 0, ProcessedTimedEventIndices := {},
          LineStartTimes := [], TickerHandleValid := False\<rparr>)"

definition SetPaused :: "bool \<Rightarrow> UShortStorySubsystem \<Rightarrow> UShortStorySubsystem" where
  "SetPaused bPause s = (if \<not> bIsPlaying s then s else s\<lparr>bIsPaused := bPause\<rparr>)"

text \<open>
  Two of the debug overrides. \<^verbatim>\<open>CurrentScreenIndex >= Screens.Num() - 1\<close> is written
  without the subtraction.
\<close>

definition DebugSkipToNextScreen :: "UShortStorySubsystem \<Rightarrow> UShortStorySubsystem" where
  "DebugSkipToNextScreen s =
     (if \<not> bIsPlaying s then s
      else if CurrentScreenIndex s + 1 \<ge> length (Screens (CurrentStory s)) then s
      else AdvanceToNextScreen s)"

definition DebugJumpToScreen :: "int \<Rightarrow> UShortStorySubsystem \<Rightarrow> UShortStorySubsystem" where
  "DebugJumpToScreen ScreenIndex s =
     (if \<not> bIsPlaying s then s
      else if ScreenIndex < 0 \<or> ScreenIndex \<ge> int (length (Screens (CurrentStory s))) then s
      else
        (let TargetScreen = Screens (CurrentStory s) ! nat ScreenIndex in
         s\<lparr>CurrentScreenIndex := nat ScreenIndex, CurrentLineIndex := 0, ScreenElapsedTime := 0,
           LineElapsedTime := 0, PauseElapsedTime := 0, ProcessedTimedEventIndices := {},
           LineStartTimes := replicate (length (Lines TargetScreen)) (- 1),
           CurrentState := State_TransitioningScreen, TransitionElapsedTime := 0\<rparr>))"

section \<open>String operations of the engine used by the parser\<close>

text \<open>
  \<^verbatim>\<open>FString\<close> belongs to the engine, not to this repository. The operations the parser
  calls are modelled on \<open>string\<close> after the engine's documented behaviour: trimming removes
  whitespace, \<^verbatim>\<open>ToLower\<close> maps \<open>A\<close>..\<open>Z\<close> to \<open>a\<close>..\<open>z\<close>; \<^verbatim>\<open>StartsWith\<close>,
  \<^verbatim>\<open>EndsWith\<close>, \<^verbatim>\<open>Contains\<close> and \<^verbatim>\<open>Split\<close> ignore case unless told otherwise, and
  \<^verbatim>\<open>Equals\<close> respects it unless told otherwise.
\<close>

definition TrimStart :: "string \<Rightarrow> string" where
  "TrimStart S = dropWhile IsWhitespace S"

definition TrimEnd :: "string \<Rightarrow> string" where
  "TrimEnd S = rev (dropWhile IsWhitespace (rev S))"

definition TrimStartAndEnd :: "string \<Rightarrow> string" where
  "TrimStartAndEnd S = TrimStart (TrimEnd S)"

definition ToLowerChar :: "char \<Rightarrow> char" where
  "ToLowerChar c =
     (case map_of (zip ''ABCDEFGHIJKLMNOPQRSTUVWXYZ'' ''abcdefghijklmnopqrstuvwxyz'') c of
        Some l \<Rightarrow> l
      | None \<Rightarrow> c)"

definition ToLower :: "string \<Rightarrow> string" where
  "ToLower S = map ToLowerChar S"

definition EqualsIgnoreCase :: "string \<Rightarrow> string \<Rightarrow> bool" where
  "EqualsIgnoreCase S T \<longleftrightarrow> ToLower S = ToLower T"

definition StartsWith :: "string \<Rightarrow> string \<Rightarrow> bool" where
  "StartsWith S Prefix \<longleftrightarrow>
     Prefix \<noteq> [] \<and> length Prefix \<le> length S \<and> ToLower (take (length Prefix) S) = ToLower Prefix"

definition EndsWith :: "string \<Rightarrow> string \<Rightarrow> bool" where
  "EndsWith S Suffix \<longleftrightarrow>
     Suffix \<noteq> [] \<and> length Suffix \<le> length S \<and>
     ToLower (drop (length S - length Suffix) S) = ToLower Suffix"

text \<open>\<^verbatim>\<open>Mid(Start)\<close>, \<^verbatim>\<open>Mid(Start, Count)\<close> and \<^verbatim>\<open>Left(Count)\<close>.\<close>

definition Mid :: "string \<Rightarrow> nat \<Rightarrow> string" where
  "Mid S Start = drop Start S"

definition MidCount :: "string \<Rightarrow> nat \<Rightarrow> nat \<Rightarrow> string" where
  "MidCount S Start Count = take Count (drop Start S)"

definition Left :: "string \<Rightarrow> nat \<Rightarrow> string" where
  "Left S Count = take Count S"

definition Contains :: "string \<Rightarrow> char \<Rightarrow> bool" where
  "Contains S c \<longleftrightarrow> c \<in> set S"

definition quoted :: "string \<Rightarrow> string" where
  "quoted S = [CHR 0x27] @ S @ [CHR 0x27]"

text \<open>
  \<^verbatim>\<open>Split\<close> at the first occurrence of a one-character separator: the text before it and
  the text after it, or \<open>None\<close> (\<^verbatim>\<open>false\<close>, outputs untouched) when it does not occur.
\<close>

definition Split :: "string \<Rightarrow> char \<Rightarrow> (string \<times> string) option" where
  "Split S Sep =
     (if Sep \<in> set S
      then Some (takeWhile (\<lambda>c. c \<noteq> Sep) S, drop 1 (dropWhile (\<lambda>c. c \<noteq> Sep) S))
      else None)"

text \<open>
  \<^verbatim>\<open>ParseIntoArray(Out, Delim, bCullEmpty)\<close>: nothing for the empty string or the empty
  delimiter; otherwise the pieces between the occurrences of the delimiter, found left to
  right, and the rest after the last one; empty pieces are dropped when culling. \<open>Piece\<close>
  is the piece being collected, the last argument the text not yet scanned.
\<close>

fun ParseIntoArray_loop :: "string \<Rightarrow> bool \<Rightarrow> string \<Rightarrow> string \<Rightarrow> string list" where
  "ParseIntoArray_loop Delim bCull Piece [] = (if \<not> bCull \<or> Piece \<noteq> [] then [Piece] else [])"
| "ParseIntoArray_loop Delim bCull Piece (c # Start) =
     (if Delim \<noteq> [] \<and> take (length Delim) (c # Start) = Delim
      then (if \<not> bCull \<or> Piece \<noteq> [] then [Piece] else [])
             @ ParseIntoArray_loop Delim bCull [] (drop (length Delim - 1) Start)
      else ParseIntoArray_loop Delim bCull (Piece @ [c]) Start)"

definition ParseIntoArray :: "string \<Rightarrow> string \<Rightarrow> bool \<Rightarrow> string list" where
  "ParseIntoArray S Delim bCull =
     (if S = [] \<or> Delim = [] then [] else ParseIntoArray_loop Delim bCull [] S)"

text \<open>
  \<^verbatim>\<open>ParseIntoArrayLines\<close>: the same with the three line endings CR LF, CR and LF, tried in
  that order at every position, always culling empty lines.
\<close>

fun ParseIntoArrayLines_loop :: "string \<Rightarrow> string \<Rightarrow> string list" where
  "ParseIntoArrayLines_loop Piece [] = (if Piece \<noteq> [] then [Piece] else [])"
| "ParseIntoArrayLines_loop Piece (c # Start) =
     (if c = CHR 0x0D \<and> take 1 Start = [CHR 0x0A]
      then (if Piece \<noteq> [] then [Piece] else []) @ ParseIntoArrayLines_loop [] (drop 1 Start)
      else if c = CHR 0x0D \<or> c = CHR 0x0A
      then (if Piece \<noteq> [] then [Piece] else []) @ ParseIntoArrayLines_loop [] Start
      else ParseIntoArrayLines_loop (Piece @ [c]) Start)"

definition ParseIntoArrayLines :: "string \<Rightarrow> string list" where
  "ParseIntoArrayLines S = ParseIntoArrayLines_loop [] S"

text \<open>The decimal digits that \<^verbatim>\<open>Printf\<close> writes for \<^verbatim>\<open>%d\<close> (the numbers printed are not negative).\<close>

fun string_of_nat :: "nat \<Rightarrow> string" where
  "string_of_nat n =
     (if n < 10 then [''0123456789'' ! n]
      else string_of_nat (n div 10) @ [''0123456789'' ! (n mod 10)])"


section \<open>Parser (ShortStoryParser.cpp)\<close>

subsection \<open>Keyword tables\<close>

definition ParseAnimationType :: "string \<Rightarrow> EStoryLineAnimation option" where
  "ParseAnimationType AnimString =
     (let Lower = ToLower AnimString in
      if Lower = ''typewriter'' \<or> Lower = ''standard'' \<or> Lower = ''alone'' \<or> Lower = ''slow''
         \<or> Lower = ''fast'' then Some Anim_Typewriter
      else if Lower = ''left_to_right'' \<or> Lower = ''lefttoright'' then Some Anim_LeftToRight
      else if Lower = ''top_down'' \<or> Lower = ''topdown'' then Some Anim_TopDown
      else if Lower = ''word_rain'' \<or> Lower = ''wordrain'' then Some Anim_WordRain
      else if Lower = ''snake'' then Some Anim_Snake
      else if Lower = ''slow'' then Some Anim_Typewriter
      else if Lower = ''fast'' then Some Anim_Typewriter
      else if Lower = ''paragraph'' \<or> Lower = ''fade_in'' \<or> Lower = ''fadein'' then Some Anim_Paragraph
      else None)"

definition ParsePauseDuration :: "string \<Rightarrow> EStoryPauseDuration option" where
  "ParsePauseDuration PauseString =
     (let Lower = ToLower PauseString in
      if Lower = ''0'' \<or> Lower = ''none'' then Some Pause_None
      else if Lower = ''short'' then Some Pause_Short
      else if Lower = ''standard'' then Some Pause_Standard
      else if Lower = ''long'' then Some Pause_Long
      else None)"

definition ParseEffectType :: "string \<Rightarrow> EStoryEffect option" where
  "ParseEffectType EffectString =
     (let Lower = ToLower EffectString in
      if Lower = ''none'' then Some Effect_None
      else if Lower = ''shake_low'' \<or> Lower = ''shakelow'' then Some Effect_ShakeLow
      else if Lower = ''shake_med'' \<or> Lower = ''shakemed'' \<or> Lower = ''shake_medium''
        then Some Effect_ShakeMed
      else if Lower = ''shake_high'' \<or> Lower = ''shakehigh'' then Some Effect_ShakeHigh
      else if Lower = ''storm'' then Some Effect_Storm
      else None)"

definition ParseTransitionType :: "string \<Rightarrow> EStoryTransition option" where
  "ParseTransitionType TransitionString =
     (let Lower = ToLower TransitionString in
      if Lower = ''instant'' then Some Transition_Instant
      else if Lower = ''fade'' then Some Transition_Fade
      else if Lower = ''crossfade'' then Some Transition_Crossfade
      else None)"

definition ParseSpeed :: "string \<Rightarrow> EStorySpeed option" where
  "ParseSpeed SpeedString =
     (let Lower = ToLower SpeedString in
      if Lower = ''standard'' then Some Speed_Standard
      else if Lower = ''fast'' then Some Speed_Fast
      else if Lower = ''slow'' then Some Speed_Slow
      else None)"

text \<open>
  \<^verbatim>\<open>FCString::Atof\<close> is the engine's (the C library's) conversion of text to a number. The
  parser functions that call it take it as the parameter \<open>Atof\<close>.
\<close>

definition ParsePositionOffset :: "(string \<Rightarrow> real) \<Rightarrow> string \<Rightarrow> FVector2D option" where
  "ParsePositionOffset Atof OffsetString =
     (let Components = ParseIntoArray OffsetString '','' False in
      if length Components = 2
      then Some \<lparr>X = Atof (TrimStartAndEnd (Components ! 0)), Y = Atof (TrimStartAndEnd (Components ! 1))\<rparr>
      else None)"

subsection \<open>Line cleaning and section headers\<close>

definition CleanLine :: "string \<Rightarrow> string" where
  "CleanLine Line =
     (let Cleaned = TrimStartAndEnd Line in if StartsWith Cleaned ''#'' then [] else Cleaned)"

text \<open>The result is the return value and \<^verbatim>\<open>OutSectionName\<close>.\<close>

definition IsSectionHeader :: "string \<Rightarrow> bool \<times> string" where
  "IsSectionHeader Line =
     (if StartsWith Line ''['' \<and> EndsWith Line '']''
      then
        (let OutSectionName = TrimStartAndEnd (MidCount Line 1 (length Line - 2)) in
         if EqualsIgnoreCase OutSectionName ''SPACER'' then (False, OutSectionName)
         else (OutSectionName \<noteq> [], OutSectionName))
      else (False, []))"

text \<open>
  \<^verbatim>\<open>TMap<FString, FString>\<close> compares its keys without regard to case; the model keys the
  map by the lower-case form of the key.
\<close>

definition ParseMetadataLine :: "string \<Rightarrow> (string \<rightharpoonup> string) \<Rightarrow> bool \<times> (string \<rightharpoonup> string)" where
  "ParseMetadataLine Line OutMetadata =
     (if Contains Line CHR ''|'' then (False, OutMetadata)
      else
        (case Split Line CHR ''='' of
           Some (Key0, Value0) \<Rightarrow>
             (let Key = TrimStartAndEnd Key0; Value = TrimStartAndEnd Value0 in
              if Key \<noteq> [] \<and> Value \<noteq> [] then (True, OutMetadata(ToLower Key \<mapsto> Value))
              else (False, OutMetadata))
         | None \<Rightarrow> (False, OutMetadata)))"

subsection \<open>Wrapping\<close>

text \<open>
  The inner loop of \<^verbatim>\<open>SplitTextByLength\<close>: \<open>i\<close> runs from \<open>MaxLen\<close> down to \<open>0\<close> and stops
  at the first space; \<open>None\<close> is the value \<open>-1\<close> that \<^verbatim>\<open>SplitIndex\<close> keeps when there is none.
\<close>

function find_split_index :: "string \<Rightarrow> nat \<Rightarrow> nat option" where
  "find_split_index Remaining i =
     (if Remaining ! i = CHR '' '' then Some i
      else if i = 0 then None
      else find_split_index Remaining (i - 1))"
  by pat_completeness auto
termination
  by (relation "measure (\<lambda>(Remaining, i). i)") auto

declare find_split_index.simps [simp del]

lemma find_split_index_Some:
  "find_split_index Remaining i = Some k \<Longrightarrow> k \<le> i \<and> Remaining ! k = CHR '' ''"
proof (induction Remaining i rule: find_split_index.induct)
  case (1 Remaining i)
  then show ?case
    by (subst (asm) (2) find_split_index.simps) (auto split: if_splits)
qed

lemma length_TrimStart_le: "length (TrimStart S) \<le> length S"
  by (simp add: TrimStart_def length_dropWhile_le)

lemma length_TrimStart_space:
  assumes "S \<noteq> []" and "S ! 0 = CHR '' ''"
  shows "length (TrimStart S) < length S"
proof (cases S)
  case Nil
  with assms(1) show ?thesis by simp
next
  case (Cons c cs)
  with assms(2) have "IsWhitespace c" by (simp add: IsWhitespace_def)
  with Cons show ?thesis
    using length_dropWhile_le [of IsWhitespace cs] by (simp add: TrimStart_def)
qed

text \<open>
  The \<^verbatim>\<open>while\<close> loop of \<^verbatim>\<open>SplitTextByLength\<close>, on the pair of \<^verbatim>\<open>Remaining\<close> and
  \<^verbatim>\<open>Result\<close>. The source enters the loop only with \<open>MaxLen > 0\<close> (it returns before the
  loop otherwise); the loop condition of the model repeats that fact, which is what makes
  every run finite.
\<close>

function SplitTextByLength_loop :: "nat \<Rightarrow> string \<Rightarrow> string list \<Rightarrow> string \<times> string list" where
  "SplitTextByLength_loop MaxLen Remaining Result =
     (if 0 < MaxLen \<and> length Remaining > MaxLen
      then
        (let SplitIndex = (case find_split_index Remaining MaxLen of Some i \<Rightarrow> i | None \<Rightarrow> MaxLen)
         in SplitTextByLength_loop MaxLen (TrimStart (Mid Remaining SplitIndex))
              (Result @ [TrimStartAndEnd (Left Remaining SplitIndex)]))
      else (Remaining, Result))"
  by pat_completeness auto
termination
proof (relation "measure (\<lambda>(MaxLen, Remaining, Result). length Remaining)")
  show "wf (measure (\<lambda>(MaxLen, Remaining, Result). length Remaining))"
    by simp
next
  fix MaxLen :: nat and Remaining :: string and Result :: "string list" and SplitIndex :: nat
  assume c: "0 < MaxLen \<and> MaxLen < length Remaining"
    and k: "SplitIndex = (case find_split_index Remaining MaxLen of None \<Rightarrow> MaxLen | Some i \<Rightarrow> i)"
  have "length (TrimStart (Mid Remaining SplitIndex)) < length Remaining"
  proof (cases "SplitIndex = 0")
    case True
    with k c obtain "find_split_index Remaining MaxLen = Some 0"
      by (auto split: option.splits)
    then have "Remaining ! 0 = CHR '' ''"
      by (auto dest: find_split_index_Some)
    moreover from c have "Remaining \<noteq> []" by auto
    ultimately show ?thesis
      using True length_TrimStart_space [of Remaining] by (simp add: Mid_def)
  next
    case False
    with c have "length Remaining - SplitIndex < length Remaining"
      by arith
    then have "length (Mid Remaining SplitIndex) < length Remaining"
      by (simp add: Mid_def)
    with length_TrimStart_le [of "Mid Remaining SplitIndex"] show ?thesis
      by simp
  qed
  then show "((MaxLen, TrimStart (Mid Remaining SplitIndex),
               Result @ [TrimStartAndEnd (Left Remaining SplitIndex)]),
              (MaxLen, Remaining, Result))
             \<in> measure (\<lambda>(MaxLen, Remaining, Result). length Remaining)"
    by simp
qed

declare SplitTextByLength_loop.simps [simp del]

definition SplitTextByLength :: "string \<Rightarrow> int \<Rightarrow> string list" where
  "SplitTextByLength Text' MaxLen =
     (if Text' = [] then []
      else if MaxLen \<le> 0 then [Text']
      else
        (let (Remaining, Result) = SplitTextByLength_loop (nat MaxLen) Text' [] in
         if Remaining \<noteq> [] then Result @ [TrimStartAndEnd Remaining] else Result))"

definition ProcessTextToLines ::
  "string \<Rightarrow> EStoryLineAnimation \<Rightarrow> EStorySpeed \<Rightarrow> EStoryPauseDuration \<Rightarrow> EStoryEffect \<Rightarrow> FVector2D
   \<Rightarrow> FStoryLine list \<Rightarrow> int \<Rightarrow> FStoryLine list" where
  "ProcessTextToLines Text' Anim Speed' Pause Effect' Offset OutLines MaxLineLength =
     (let ManualSegments0 = ParseIntoArray Text' [CHR 0x5C, CHR 0x5C] False;
          ManualSegments = (if length ManualSegments0 = 0 then [Text'] else ManualSegments0);
          FinalSegments =
            concat (map (\<lambda>ManualSeg. SplitTextByLength (TrimStartAndEnd ManualSeg) MaxLineLength)
                      ManualSegments)
      in OutLines @
         map (\<lambda>i. \<lparr>Text = FinalSegments ! i, AnimationType = Anim, Speed = Speed',
                    PauseDuration =
                      (if i = length FinalSegments - 1 then Pause else Pause_LineBreak),
                    Effect = Effect', PositionOffset = Offset\<rparr>)
           [0 ..< length FinalSegments])"

subsection \<open>Attribute lines and timed events\<close>

record LineAttributes =
  OutText :: string
  OutAnim :: EStoryLineAnimation
  OutSpeed :: EStorySpeed
  OutPause :: EStoryPauseDuration
  OutEffect :: EStoryEffect
  OutOffset :: FVector2D

text \<open>
  One pass of the loop over the named parameters (fields 2 and up) of
  \<^verbatim>\<open>ParseLineAttributes\<close>. The loop state is the out-parameters and \<^verbatim>\<open>OutError\<close>.
\<close>

definition parse_named_parameter ::
  "(string \<Rightarrow> real) \<Rightarrow> string \<Rightarrow> LineAttributes \<times> string \<Rightarrow> LineAttributes \<times> string" where
  "parse_named_parameter Atof Fld = (\<lambda>(A, OutError).
     (case Split Fld CHR ''='' of
        Some (Key0, Value0) \<Rightarrow>
          (let Key = ToLower (TrimStartAndEnd Key0); Value = TrimStartAndEnd Value0 in
           if Key = ''speed'' then
             (case ParseSpeed Value of
                Some v \<Rightarrow> (A\<lparr>OutSpeed := v\<rparr>, OutError)
              | None \<Rightarrow> (A, ''Unknown speed '' @ quoted Value))
           else if Key = ''pause'' then
             (case ParsePauseDuration Value of
                Some v \<Rightarrow> (A\<lparr>OutPause := v\<rparr>, OutError)
              | None \<Rightarrow> (A, ''Unknown pause duration '' @ quoted Value))
           else if Key = ''effect'' then
             (case ParseEffectType Value of
                Some v \<Rightarrow> (A\<lparr>OutEffect := v\<rparr>, OutError)
              | None \<Rightarrow> (A, ''Unknown effect type '' @ quoted Value))
           else if Key = ''offset'' then
             (case ParsePositionOffset Atof Value of
                Some v \<Rightarrow> (A\<lparr>OutOffset := v\<rparr>, OutError)
              | None \<Rightarrow> (A, ''Invalid offset format '' @ quoted Value @ '' (expected X,Y)''))
           else (A, ''Unknown parameter '' @ quoted Key))
      | None \<Rightarrow> (A, ''Invalid parameter format '' @ quoted Fld @ '' (expected key=value)'')))"

text \<open>
  \<^verbatim>\<open>ParseLineAttributes\<close>: \<open>Inl\<close> is the return value \<^verbatim>\<open>false\<close> with its \<^verbatim>\<open>OutError\<close>;
  \<open>Inr\<close> is \<^verbatim>\<open>true\<close> with the out-parameters and with whatever \<^verbatim>\<open>OutError\<close> holds at the
  return (the caller's string is empty before the call).
\<close>

definition ParseLineAttributes :: "(string \<Rightarrow> real) \<Rightarrow> string \<Rightarrow> string + LineAttributes \<times> string" where
  "ParseLineAttributes Atof Line =
     (let Fields = map TrimStartAndEnd (ParseIntoArray Line ''|'' False) in
      if length Fields < 2
      then Inl (''Invalid story line format (expected at least 2 fields, got ''
                  @ string_of_nat (length Fields) @ '')'')
      else
        (let Text0 = Fields ! 0;
             Text1 = (if EqualsIgnoreCase (TrimStartAndEnd Text0) ''[SPACER]'' then '' '' else Text0)
         in if Text1 = [] then Inl ''Empty text field''
            else
              (let (Anim, Error0) =
                     (case ParseAnimationType (Fields ! 1) of
                        Some a \<Rightarrow> (a, [])
                      | None \<Rightarrow> (Anim_Typewriter, ''Unknown animation type '' @ quoted (Fields ! 1)));
                   A0 = \<lparr>OutText = Text1, OutAnim = Anim, OutSpeed = Speed_Standard,
                         OutPause = Pause_None, OutEffect = Effect_None, OutOffset = ZeroVector\<rparr>
               in Inr (fold (parse_named_parameter Atof) (drop 2 Fields) (A0, Error0)))))"

text \<open>\<^verbatim>\<open>ParseTimedEvent\<close>: \<open>Inl\<close> is \<^verbatim>\<open>false\<close> with \<^verbatim>\<open>OutError\<close>, \<open>Inr\<close> is the event.\<close>

definition ParseTimedEvent :: "(string \<Rightarrow> real) \<Rightarrow> string \<Rightarrow> string + FStoryTimedEvent" where
  "ParseTimedEvent Atof Line =
     (let Parts = ParseIntoArray Line '' '' True in
      if length Parts = 0 then Inl ''Empty timed event''
      else
        (let Command = ToLower (Parts ! 0) in
         if Command = ''sfx'' then
           (let Remainder = TrimStartAndEnd (Mid Line (length Command));
                Fields = ParseIntoArray Remainder ''|'' False
            in if length Fields < 2
               then Inl ''Invalid @sfx format (expected: @sfx <path> | <time>)''
               else Inr (FStoryTimedEvent_default
                           \<lparr>EventType := Event_SFX,
                            AssetPath := TrimStartAndEnd (Fields ! 0),
                            StartTime := Atof (TrimStartAndEnd (Fields ! 1))\<rparr>))
         else if Command = ''vfx'' then
           (let Remainder = TrimStartAndEnd (Mid Line (length Command));
                Fields = ParseIntoArray Remainder ''|'' False
            in if length Fields < 3
               then Inl ''Invalid @vfx format (expected: @vfx <class> | <time> | <duration>)''
               else Inr (FStoryTimedEvent_default
                           \<lparr>EventType := Event_VFX,
                            AssetPath := TrimStartAndEnd (Fields ! 0),
                            StartTime := Atof (TrimStartAndEnd (Fields ! 1)),
                            Duration := Atof (TrimStartAndEnd (Fields ! 2))\<rparr>))
         else if Command = ''wait'' then
           (if length Parts < 2
            then Inl ''Invalid @wait format (expected: @wait <duration>)''
            else Inr (FStoryTimedEvent_default
                        \<lparr>EventType := Event_Wait, StartTime := Atof (Parts ! 1)\<rparr>))
         else if Command = ''background'' then
           (let Path = TrimStartAndEnd (Mid Line (length Command)) in
            if Path = []
            then Inl ''Invalid @background format (expected: @background <path>)''
            else Inr (FStoryTimedEvent_default
                        \<lparr>EventType := Event_BackgroundChange, AssetPath := Path\<rparr>))
         else Inl (''Unknown timed event command '' @ quoted Command)))"

subsection \<open>The line loop of \<^verbatim>\<open>ParseStoryFromString\<close>\<close>

datatype EParseState = Parse_None | Parse_StoryMetadata | Parse_ScreenContent

text \<open>
  The local variables of \<^verbatim>\<open>ParseStoryFromString\<close> that live across iterations. The local
  \<^verbatim>\<open>CurrentState\<close> is named \<open>ParseState\<close> (the player has a member of that name).
  \<open>CurrentScreen\<close> is the pointer into \<^verbatim>\<open>OutStory.Screens\<close>: the index it points at, or
  \<open>None\<close> for the null pointer.
\<close>

record ParseLocals =
  OutStory :: FShortStory
  OutErrors :: "string list"
  ParseState :: EParseState
  StoryMetadata :: "string \<rightharpoonup> string"
  CurrentScreenMetadata :: "string \<rightharpoonup> string"
  CurrentScreen :: "nat option"
  bFoundStorySection :: bool
  PendingLines :: "string list"

definition ParseLocals_init :: ParseLocals where
  "ParseLocals_init =
     \<lparr>OutStory = FShortStory_default, OutErrors = [], ParseState = Parse_None,
      StoryMetadata = Map.empty, CurrentScreenMetadata = Map.empty, CurrentScreen = None,
      bFoundStorySection = False, PendingLines = []\<rparr>"

definition LinePrefix :: "nat \<Rightarrow> string" where
  "LinePrefix LineNumber = ''Line '' @ string_of_nat LineNumber @ '': ''"

text \<open>Writing through the pointer \<^verbatim>\<open>CurrentScreen\<close>.\<close>

definition update_screen :: "nat \<Rightarrow> (FStoryScreen \<Rightarrow> FStoryScreen) \<Rightarrow> ParseLocals \<Rightarrow> ParseLocals" where
  "update_screen k f st =
     st\<lparr>OutStory := (OutStory st)\<lparr>Screens := (Screens (OutStory st))[k := f (Screens (OutStory st) ! k)]\<rparr>\<rparr>"

definition SpacerLine :: FStoryLine where
  "SpacerLine =
     FStoryLine_default\<lparr>Text := '' '', AnimationType := Anim_Typewriter,
       PauseDuration := Pause_None, Effect := Effect_None\<rparr>"

text \<open>
  The block "Apply screen metadata": \<open>Meta\<close> is \<^verbatim>\<open>CurrentScreenMetadata\<close> after the line
  was added to it.
\<close>

definition apply_screen_metadata :: "nat \<Rightarrow> (string \<rightharpoonup> string) \<Rightarrow> ParseLocals \<Rightarrow> ParseLocals" where
  "apply_screen_metadata k Meta st =
     (let st1 = st\<lparr>CurrentScreenMetadata := Meta\<rparr>;
          st2 = (case Meta ''background'' of
                   Some BGPath \<Rightarrow>
                     update_screen k
                       (\<lambda>S. S\<lparr>BackgroundPath := BGPath,
                              Background :=
                                (if StartsWith BGPath ''/Game'' \<or> StartsWith BGPath ''/Engine''
                                 then Some BGPath else Background S)\<rparr>) st1
                 | None \<Rightarrow> st1)
      in case Meta ''transition'' of
           Some T \<Rightarrow>
             (case ParseTransitionType T of
                Some Transition \<Rightarrow> update_screen k (\<lambda>S. S\<lparr>TransitionType := Transition\<rparr>) st2
              | None \<Rightarrow> st2)
         | None \<Rightarrow> st2)"

text \<open>The branch of a timed event line (\<open>@\<close>).\<close>

definition add_timed_event :: "(string \<Rightarrow> real) \<Rightarrow> nat \<Rightarrow> string \<Rightarrow> nat \<Rightarrow> ParseLocals \<Rightarrow> ParseLocals" where
  "add_timed_event Atof LineNumber Line k st =
     (case ParseTimedEvent Atof (Mid Line 1) of
        Inr Event \<Rightarrow> update_screen k (\<lambda>S. S\<lparr>TimedEvents := TimedEvents S @ [Event]\<rparr>) st
      | Inl EventError \<Rightarrow> st\<lparr>OutErrors := OutErrors st @ [LinePrefix LineNumber @ EventError]\<rparr>)"

text \<open>The branch of a \<^verbatim>\<open>[SPACER]\<close> line.\<close>

definition add_spacer :: "nat \<Rightarrow> nat \<Rightarrow> ParseLocals \<Rightarrow> ParseLocals" where
  "add_spacer LineNumber k st =
     (let st1 = (if length (PendingLines st) > 0
                 then st\<lparr>OutErrors := OutErrors st @
                          [LinePrefix LineNumber @
                           ''[SPACER] found inside a pending text block (missing metadata line?)''],
                         PendingLines := []\<rparr>
                 else st)
      in update_screen k (\<lambda>S. S\<lparr>Lines := Lines S @ [SpacerLine]\<rparr>) st1)"

text \<open>
  The branch of a finisher line (one with \<open>|\<close>). When \<^verbatim>\<open>ParseLineAttributes\<close> returns
  \<^verbatim>\<open>true\<close>: the pending lines, the final line, the spacer, and the buffer is cleared;
  \<^verbatim>\<open>LineError\<close> is read only when it returns \<^verbatim>\<open>false\<close>.
\<close>

definition add_finisher_line ::
  "(string \<Rightarrow> real) \<Rightarrow> int \<Rightarrow> nat \<Rightarrow> string \<Rightarrow> nat \<Rightarrow> ParseLocals \<Rightarrow> ParseLocals" where
  "add_finisher_line Atof MaxLineLength LineNumber Line k st =
     (case ParseLineAttributes Atof Line of
        Inr (A, LineError) \<Rightarrow>
          (let st1 = update_screen k (\<lambda>S. S\<lparr>Lines :=
                       fold (\<lambda>Pending Ls. ProcessTextToLines Pending (OutAnim A) (OutSpeed A) Pause_None
                                             (OutEffect A) (OutOffset A) Ls MaxLineLength)
                            (PendingLines st) (Lines S)\<rparr>) st;
               st2 = update_screen k (\<lambda>S. S\<lparr>Lines :=
                       ProcessTextToLines (OutText A) (OutAnim A) (OutSpeed A) (OutPause A)
                         (OutEffect A) (OutOffset A) (Lines S) MaxLineLength\<rparr>) st1;
               st3 = update_screen k (\<lambda>S. S\<lparr>Lines := Lines S @ [SpacerLine]\<rparr>) st2
           in st3\<lparr>PendingLines := []\<rparr>)
      | Inl LineError \<Rightarrow> st\<lparr>OutErrors := OutErrors st @ [LinePrefix LineNumber @ LineError]\<rparr>)"

text \<open>
  The case \<^verbatim>\<open>EParseState::ScreenContent\<close> of the loop body, with a screen at hand.
  \<^verbatim>\<open>ParseMetadataLine\<close> is called (and may write the map) only when the screen has no
  content yet.
\<close>

definition parse_screen_content ::
  "(string \<Rightarrow> real) \<Rightarrow> int \<Rightarrow> nat \<Rightarrow> string \<Rightarrow> nat \<Rightarrow> ParseLocals \<Rightarrow> ParseLocals" where
  "parse_screen_content Atof MaxLineLength LineNumber Line k st =
     (let Scr = Screens (OutStory st) ! k;
          bHasContent = (length (Lines Scr) > 0 \<or> length (TimedEvents Scr) > 0
                         \<or> length (PendingLines st) > 0)
      in
      if \<not> bHasContent \<and> fst (ParseMetadataLine Line (CurrentScreenMetadata st))
      then apply_screen_metadata k (snd (ParseMetadataLine Line (CurrentScreenMetadata st))) st
      else if StartsWith Line ''@'' then add_timed_event Atof LineNumber Line k st
      else if EqualsIgnoreCase (TrimStartAndEnd Line) ''[SPACER]'' then add_spacer LineNumber k st
      else if Contains Line CHR ''|'' then add_finisher_line Atof MaxLineLength LineNumber Line k st
      else st\<lparr>PendingLines := PendingLines st @ [Line]\<rparr>)"

text \<open>The body of the loop, for the raw line \<open>Raw\<close> with number \<open>LineNumber\<close>.\<close>

definition parse_line :: "(string \<Rightarrow> real) \<Rightarrow> int \<Rightarrow> nat \<Rightarrow> string \<Rightarrow> ParseLocals \<Rightarrow> ParseLocals" where
  "parse_line Atof MaxLineLength LineNumber Raw st =
     (let Line = CleanLine Raw in
      if Line = [] then st
      else
        (let bHeader = fst (IsSectionHeader Line); SectionName = snd (IsSectionHeader Line) in
         if bHeader then
           (let st1 = (if length (PendingLines st) > 0
                       then st\<lparr>OutErrors := OutErrors st @
                                [LinePrefix LineNumber @
                                 ''Orphaned text lines found before section change (missing metadata line?)''],
                               PendingLines := []\<rparr>
                       else st)
            in if EqualsIgnoreCase SectionName ''STORY''
               then st1\<lparr>ParseState := Parse_StoryMetadata, bFoundStorySection := True\<rparr>
               else if StartsWith SectionName ''SCREEN''
               then st1\<lparr>ParseState := Parse_ScreenContent, CurrentScreenMetadata := Map.empty,
                        OutStory := (OutStory st1)\<lparr>Screens := Screens (OutStory st1) @ [FStoryScreen_default]\<rparr>,
                        CurrentScreen := Some (length (Screens (OutStory st1)))\<rparr>
               else st1\<lparr>OutErrors := OutErrors st1 @
                          [LinePrefix LineNumber @ ''Unknown section ['' @ SectionName @ '']'']\<rparr>)
         else
           (case ParseState st of
              Parse_StoryMetadata \<Rightarrow>
                (if fst (ParseMetadataLine Line (StoryMetadata st))
                 then st\<lparr>StoryMetadata := snd (ParseMetadataLine Line (StoryMetadata st))\<rparr>
                 else st\<lparr>OutErrors := OutErrors st @
                           [LinePrefix LineNumber @ ''Invalid metadata format: '' @ Line]\<rparr>)
            | Parse_ScreenContent \<Rightarrow>
                (case CurrentScreen st of
                   None \<Rightarrow> st\<lparr>OutErrors := OutErrors st @
                               [LinePrefix LineNumber @ ''No active screen section'']\<rparr>
                 | Some k \<Rightarrow> parse_screen_content Atof MaxLineLength LineNumber Line k st)
            | Parse_None \<Rightarrow>
                st\<lparr>OutErrors := OutErrors st @
                     [LinePrefix LineNumber @ ''Content found before [STORY] or [SCREEN] section'']\<rparr>)))"

text \<open>The loop \<^verbatim>\<open>for (i = 0; i < Lines.Num(); ++i)\<close>, with \<open>LineNumber = i + 1\<close>.\<close>

fun parse_lines ::
  "(string \<Rightarrow> real) \<Rightarrow> int \<Rightarrow> nat \<Rightarrow> string list \<Rightarrow> ParseLocals \<Rightarrow> ParseLocals" where
  "parse_lines Atof MaxLineLength LineNumber [] st = st"
| "parse_lines Atof MaxLineLength LineNumber (Raw # Rest) st =
     parse_lines Atof MaxLineLength (LineNumber + 1) Rest
       (parse_line Atof MaxLineLength LineNumber Raw st)"

text \<open>
  \<^verbatim>\<open>ParseStoryFromString\<close>: the return value, \<^verbatim>\<open>OutStory\<close> and \<^verbatim>\<open>OutErrors\<close>.
\<close>

definition ParseStoryFromString ::
  "(string \<Rightarrow> real) \<Rightarrow> string \<Rightarrow> int \<Rightarrow> bool \<times> FShortStory \<times> string list" where
  "ParseStoryFromString Atof StoryText MaxLineLength =
     (let Lines' = ParseIntoArrayLines StoryText in
      if length Lines' = 0 then (False, FShortStory_default, [''Empty story file''])
      else
        (let st = parse_lines Atof MaxLineLength 1 Lines' ParseLocals_init in
         if \<not> bFoundStorySection st
         then (False, OutStory st, OutErrors st @ [''Missing [STORY] section''])
         else
           (let Errors1 = (if length (PendingLines st) > 0
                           then OutErrors st @
                                [''End of file: Orphaned text lines found (missing metadata line?)'']
                           else OutErrors st);
                Story1 = (case StoryMetadata st ''title'' of
                            Some T \<Rightarrow> (OutStory st)\<lparr>Title := T\<rparr>
                          | None \<Rightarrow> OutStory st);
                Story2 = (case StoryMetadata st ''ost'' of
                            Some T \<Rightarrow> Story1\<lparr>OST := T\<rparr>
                          | None \<Rightarrow> Story1)
            in if \<not> IsValid Story2
               then (False, Story2,
                     Errors1
                     @ (if Title Story2 = [] then [''Missing 'title' in [STORY] section''] else [])
                     @ (if length (Screens Story2) = 0
                        then [''No screens defined (missing [SCREEN_XX] sections)''] else []))
               else (True, Story2, Errors1))))"

text \<open>The deprecated shim \<^verbatim>\<open>ParseStoryLine\<close>: the return value, \<^verbatim>\<open>OutLines\<close>, \<^verbatim>\<open>OutError\<close>.\<close>

definition ParseStoryLine ::
  "(string \<Rightarrow> real) \<Rightarrow> string \<Rightarrow> FStoryLine list \<Rightarrow> bool \<times> FStoryLine list \<times> string" where
  "ParseStoryLine Atof Line OutLines =
     (case ParseLineAttributes Atof Line of
        Inr (A, OutError) \<Rightarrow>
          (True,
           ProcessTextToLines (OutText A) (OutAnim A) (OutSpeed A) (OutPause A) (OutEffect A)
             (OutOffset A) OutLines 80,
           OutError)
      | Inl OutError \<Rightarrow> (False, OutLines, OutError))"

section \<open>Example stories and player states\<close>

definition demo_line :: "string \<Rightarrow> EStoryLineAnimation \<Rightarrow> EStoryPauseDuration \<Rightarrow> FStoryLine" where
  "demo_line t a p = FStoryLine_default\<lparr>Text := t, AnimationType := a, PauseDuration := p\<rparr>"

definition demo_screen :: "FStoryLine list \<Rightarrow> FStoryScreen" where
  "demo_screen ls = FStoryScreen_default\<lparr>Lines := ls\<rparr>"

text \<open>Story texts. \<open>unlines\<close> ends every line with a line feed.\<close>

definition unlines :: "string list \<Rightarrow> string" where
  "unlines Ls = concat (map (\<lambda>L. L @ [CHR 0x0A]) Ls)"

text \<open>
  A stand-in for \<^verbatim>\<open>Atof\<close> where a closed example needs one. Every example that uses it
  is about text in which no number is converted.
\<close>

definition Atof_zero :: "string \<Rightarrow> real" where
  "Atof_zero S = 0"

text \<open>
  One screen, one block of three TopDown lines and the spacer the parser puts after it:
  the text, and the story the parser makes of it.
\<close>

definition story_text_topdown3 :: string where
  "story_text_topdown3 =
     unlines [''[STORY]'', ''title = T'', ''[SCREEN_01]'',
              ''one'', ''two'', ''three | top_down | pause=long'']"

definition story_topdown3 :: FShortStory where
  "story_topdown3 =
     FShortStory_default\<lparr>Title := ''T'', Screens :=
       [demo_screen [demo_line ''one'' Anim_TopDown Pause_None,
                     demo_line ''two'' Anim_TopDown Pause_None,
                     demo_line ''three'' Anim_TopDown Pause_Long,
                     SpacerLine]]\<rparr>"

text \<open>One screen, one LeftToRight line and its spacer.\<close>

definition story_text_ltr :: string where
  "story_text_ltr =
     unlines [''[STORY]'', ''title = T'', ''[SCREEN_01]'', ''Hi | left_to_right'']"

definition story_ltr :: FShortStory where
  "story_ltr =
     FShortStory_default\<lparr>Title := ''T'', Screens :=
       [demo_screen [demo_line ''Hi'' Anim_LeftToRight Pause_None, SpacerLine]]\<rparr>"

text \<open>One screen, one Typewriter line.\<close>

definition story1 :: FShortStory where
  "story1 =
     FShortStory_default\<lparr>Title := ''T'', Screens :=
       [demo_screen [demo_line ''Hi'' Anim_Typewriter Pause_None]]\<rparr>"

text \<open>Three screens of one Typewriter line each.\<close>

definition story3 :: FShortStory where
  "story3 =
     FShortStory_default\<lparr>Title := ''T'', Screens :=
       [demo_screen [demo_line ''Hi'' Anim_Typewriter Pause_None],
        demo_screen [demo_line ''Ho'' Anim_Typewriter Pause_None],
        demo_screen [demo_line ''Hu'' Anim_Typewriter Pause_None]]\<rparr>"

text \<open>A player in the middle of \<open>story1\<close>, and the same player paused.\<close>

definition playing_player :: UShortStorySubsystem where
  "playing_player = snd (StartStory (Some story1) UShortStorySubsystem_init)"

definition paused_player :: UShortStorySubsystem where
  "paused_player = SetPaused True playing_player"

text \<open>
  \<open>story1\<close> played to its natural end: the first tick ends the line, the second ends the
  pause, and with no screen left the player completes.
\<close>

definition completed_player :: UShortStorySubsystem where
  "completed_player = Tick 1 (Tick 1 playing_player)"

text \<open>
  \<open>story3\<close> played until the second screen's line is in its pause: line, pause, the
  transition into the second screen (two seconds of ticks), line. The next step leaves the
  second screen.
\<close>

definition on_second_screen :: UShortStorySubsystem where
  "on_second_screen =
     Tick 1 (Tick 2 (Tick 1 (Tick 1 (snd (StartStory (Some story3) UShortStorySubsystem_init)))))"

text \<open>A timing table whose typewriter delays are all zero (text appears at once).\<close>

definition zero_timing :: FStoryAnimationTiming where
  "zero_timing =
     \<lparr>PerLetter = 0, ExtraAtSpace = 0, ExtraAtPeriod = 0, ExtraAtComma = 0,
      BlockDuration = 2, ExtraAtColon = 0\<rparr>"

definition instant_subsystem :: UShortStorySubsystem where
  "instant_subsystem = UShortStorySubsystem_init\<lparr>SpeedTimings := [Speed_Standard \<mapsto> zero_timing]\<rparr>"

text \<open>A screen whose content is two continuation lines and their terminator line.\<close>

definition story_text_continuation :: string where
  "story_text_continuation =
     unlines [''[STORY]'', ''title = T'', ''[SCREEN_01]'',
              ''A'', ''B'', ''Final | typewriter | pause=long'']"

text \<open>The same three texts as one line with two manual break markers (two backslashes each).\<close>

definition story_text_manual_breaks :: string where
  "story_text_manual_breaks =
     unlines [''[STORY]'', ''title = T'', ''[SCREEN_01]'',
              ''A '' @ [CHR 0x5C, CHR 0x5C] @ '' B '' @ [CHR 0x5C, CHR 0x5C]
                @ '' Final | typewriter | pause=long'']"

text \<open>A screen whose only content line has a malformed offset.\<close>

definition story_text_bad_offset :: string where
  "story_text_bad_offset =
     unlines [''[STORY]'', ''title = T'', ''[SCREEN_01]'',
              ''Hello | typewriter | offset=abc'']"

section \<open>Notions used in the statements\<close>

text \<open>
  The extra pause that \<^verbatim>\<open>GetCharacterIndexAtTime\<close> owes after a character. The duration
  sum adds the same term for every character.
\<close>

definition ExtraTime_of :: "FStoryAnimationTiming \<Rightarrow> char \<Rightarrow> real" where
  "ExtraTime_of Timing Ch =
     (if IsWhitespace Ch then ExtraAtSpace Timing
      else if Ch = CHR ''.'' \<or> Ch = CHR ''!'' \<or> Ch = CHR ''?'' then ExtraAtPeriod Timing
      else if Ch = CHR '','' then ExtraAtComma Timing
      else if Ch = CHR '';'' \<or> Ch = CHR '':'' then
        (if Ch = CHR '':'' then ExtraAtColon Timing else ExtraAtComma Timing)
      else 0)"

text \<open>
  The index at which one pass of the loop of \<^verbatim>\<open>SplitTextByLength\<close> cuts \<open>Remaining\<close>.
\<close>

definition split_index :: "string \<Rightarrow> nat \<Rightarrow> nat" where
  "split_index Remaining MaxLen =
     (case find_split_index Remaining MaxLen of Some i \<Rightarrow> i | None \<Rightarrow> MaxLen)"

text \<open>
  The pause kinds the parser can give a line, and the stories whose lines carry no other.
\<close>

definition parsed_pauses :: "EStoryPauseDuration set" where
  "parsed_pauses = {Pause_None, Pause_Short, Pause_Standard, Pause_Long, Pause_LineBreak}"

definition lines_pauses_ok :: "FStoryLine list \<Rightarrow> bool" where
  "lines_pauses_ok Ls \<longleftrightarrow> (\<forall>L \<in> set Ls. PauseDuration L \<in> parsed_pauses)"

definition story_pauses_ok :: "FShortStory \<Rightarrow> bool" where
  "story_pauses_ok Story \<longleftrightarrow> (\<forall>S \<in> set (Screens Story). lines_pauses_ok (Lines S))"

text \<open>A line as the parser emits it for a Typewriter text at standard speed.\<close>

definition parsed_line :: "string \<Rightarrow> EStoryPauseDuration \<Rightarrow> FStoryLine" where
  "parsed_line T P = FStoryLine_default\<lparr>Text := T, PauseDuration := P\<rparr>"

section \<open>Unfolding the definitions on concrete inputs\<close>

lemmas player_defs =
  StartStory_def StartLine_def demo_line_def demo_screen_def FStoryLine_default_def
  FStoryScreen_default_def FShortStory_default_def UShortStorySubsystem_init_def
  CalculateLineDuration_def CalculateTypewriterDuration_def GetSpeedTiming_def
  FStoryAnimationTiming_default_def typewriter_add_def IsWhitespace_def CascadeDelay_def
  Tick_def StartPause_def GetCurrentLine_def GetPauseDuration_def ProcessTimedEvents_def
  AdvanceToNextLineOrScreen_def AdvanceToNextScreen_def OnScreenTransitionComplete_def
  StopStory_def SetPaused_def ZeroVector_def Let_def block_end_loop.simps block_timing_loop.simps

lemmas string_defs =
  TrimStart_def TrimEnd_def TrimStartAndEnd_def ToLower_def ToLowerChar_def EqualsIgnoreCase_def
  StartsWith_def EndsWith_def Mid_def MidCount_def Left_def Contains_def quoted_def Split_def
  ParseIntoArray_def ParseIntoArrayLines_def IsWhitespace_def

lemmas parser_defs =
  ParseAnimationType_def ParsePauseDuration_def ParseEffectType_def ParseTransitionType_def
  ParseSpeed_def ParsePositionOffset_def CleanLine_def IsSectionHeader_def ParseMetadataLine_def
  ProcessTextToLines_def parse_named_parameter_def ParseLineAttributes_def ParseTimedEvent_def
  ParseLocals_init_def LinePrefix_def update_screen_def SpacerLine_def
  apply_screen_metadata_def add_timed_event_def add_spacer_def add_finisher_line_def
  parse_screen_content_def
  parse_line_def ParseStoryFromString_def unlines_def FShortStory_default_def
  FStoryScreen_default_def FStoryLine_default_def ZeroVector_def IsValid_def Let_def

section \<open>Properties of the duration calculator\<close>

lemma typewriter_add_cost:
  "typewriter_add Timing Ch Tot = (Tot + PerLetter Timing) + ExtraTime_of Timing Ch"
  by (simp add: typewriter_add_def ExtraTime_of_def Let_def)

lemma char_index_loop_step:
  "char_index_loop Timing Time n (Ch # rest) i CurrentTime =
     (if Time < CurrentTime + PerLetter Timing then i
      else if Time < (CurrentTime + PerLetter Timing) + ExtraTime_of Timing Ch then i + 1
      else char_index_loop Timing Time n rest (i + 1)
             ((CurrentTime + PerLetter Timing) + ExtraTime_of Timing Ch))"
  by (simp add: ExtraTime_of_def Let_def)

lemma ExtraTime_of_nonneg:
  assumes "0 \<le> ExtraAtSpace Timing" "0 \<le> ExtraAtPeriod Timing" "0 \<le> ExtraAtComma Timing"
    "0 \<le> ExtraAtColon Timing"
  shows "0 \<le> ExtraTime_of Timing Ch"
  using assms by (simp add: ExtraTime_of_def)

lemma fold_typewriter_add_mono:
  assumes "0 \<le> PerLetter Timing" "\<And>Ch. 0 \<le> ExtraTime_of Timing Ch"
  shows "Tot \<le> fold (typewriter_add Timing) Text' Tot"
proof (induction Text' arbitrary: Tot)
  case Nil
  show ?case by simp
next
  case (Cons Ch rest)
  have "Tot \<le> typewriter_add Timing Ch Tot"
    using assms(1) assms(2) [of Ch] by (simp add: typewriter_add_cost)
  also have "\<dots> \<le> fold (typewriter_add Timing) rest (typewriter_add Timing Ch Tot)"
    by (rule Cons.IH)
  finally show ?case by simp
qed

text \<open>
  Once the clock of the walk plus the cost of the text still to come is within \<open>Time\<close>,
  neither phase of any remaining character stops the walk.
\<close>

lemma char_index_loop_at_total:
  assumes "0 \<le> PerLetter Timing" "\<And>Ch. 0 \<le> ExtraTime_of Timing Ch"
  shows "fold (typewriter_add Timing) Text' CurrentTime \<le> Time \<Longrightarrow>
         char_index_loop Timing Time n Text' i CurrentTime = n"
proof (induction Text' arbitrary: i CurrentTime)
  case Nil
  show ?case by simp
next
  case (Cons Ch rest)
  let ?next = "(CurrentTime + PerLetter Timing) + ExtraTime_of Timing Ch"
  have tot: "fold (typewriter_add Timing) rest ?next \<le> Time"
    using Cons.prems by (simp add: typewriter_add_cost [of Timing Ch CurrentTime])
  have "?next \<le> fold (typewriter_add Timing) rest ?next"
    by (rule fold_typewriter_add_mono [OF assms])
  with tot have le: "?next \<le> Time" by simp
  have "\<not> Time < CurrentTime + PerLetter Timing"
    using le assms(2) [of Ch] by simp
  moreover have "\<not> Time < ?next"
    using le by simp
  ultimately show ?case
    using Cons.IH [OF tot] by (simp only: char_index_loop_step if_False)
qed

text \<open>
  C7, as the claim states it, fails: with a timing table of zero delays the duration of
  \<open>''a''\<close> is \<open>0\<close>, and the guard \<^verbatim>\<open>Time <= 0\<close> of the walk answers index \<open>0\<close>, not the
  length \<open>1\<close>.
\<close>

theorem char_index_at_zero_duration_counterexample:
  "GetCharacterIndexAtTime instant_subsystem ''a'' Speed_Standard
     (CalculateTypewriterDuration instant_subsystem ''a'' Speed_Standard) \<noteq> length ''a''"
  by (simp add: GetCharacterIndexAtTime_def CalculateTypewriterDuration_def instant_subsystem_def
      UShortStorySubsystem_init_def zero_timing_def GetSpeedTiming_def typewriter_add_def Let_def)

text \<open>
  C7, amended. For every text and every timing table whose per-letter delay and four extra
  delays are not negative, if the text is empty or its typewriter duration is positive,
  the character index at exactly that duration is the length of the text.
\<close>

theorem char_index_at_duration:
  assumes "0 \<le> PerLetter (GetSpeedTiming s Speed')"
    and "0 \<le> ExtraAtSpace (GetSpeedTiming s Speed')"
    and "0 \<le> ExtraAtPeriod (GetSpeedTiming s Speed')"
    and "0 \<le> ExtraAtComma (GetSpeedTiming s Speed')"
    and "0 \<le> ExtraAtColon (GetSpeedTiming s Speed')"
    and "Text' = [] \<or> 0 < CalculateTypewriterDuration s Text' Speed'"
  shows "GetCharacterIndexAtTime s Text' Speed' (CalculateTypewriterDuration s Text' Speed')
           = length Text'"
proof (cases "Text' = []")
  case True
  then show ?thesis
    by (simp add: GetCharacterIndexAtTime_def CalculateTypewriterDuration_def)
next
  case False
  with assms(6) have pos: "0 < CalculateTypewriterDuration s Text' Speed'" by simp
  have ex: "\<And>Ch. 0 \<le> ExtraTime_of (GetSpeedTiming s Speed') Ch"
    by (rule ExtraTime_of_nonneg [OF assms(2-5)])
  have "char_index_loop (GetSpeedTiming s Speed') (CalculateTypewriterDuration s Text' Speed')
          (length Text') Text' 0 0 = length Text'"
    by (rule char_index_loop_at_total [OF assms(1) ex]) (simp add: CalculateTypewriterDuration_def)
  with pos show ?thesis
    by (simp add: GetCharacterIndexAtTime_def)
qed

theorem char_index_at_duration_witness:
  "0 < CalculateTypewriterDuration UShortStorySubsystem_init ''Hi, you.'' Speed_Standard \<and>
   GetCharacterIndexAtTime UShortStorySubsystem_init ''Hi, you.'' Speed_Standard
     (CalculateTypewriterDuration UShortStorySubsystem_init ''Hi, you.'' Speed_Standard) = 8"
  using char_index_at_duration [of UShortStorySubsystem_init Speed_Standard "''Hi, you.''"]
  by (simp add: CalculateTypewriterDuration_def UShortStorySubsystem_init_def GetSpeedTiming_def
      typewriter_add_def Let_def FStoryAnimationTiming_default_def IsWhitespace_def)

section \<open>Properties of wrapping\<close>

lemma find_split_index_nearest:
  "find_split_index Remaining i = Some k \<Longrightarrow> k < j \<Longrightarrow> j \<le> i \<Longrightarrow> Remaining ! j \<noteq> CHR '' ''"
proof (induction Remaining i rule: find_split_index.induct)
  case (1 Remaining i)
  show ?case
  proof (cases "Remaining ! i = CHR '' ''")
    case True
    with "1.prems" show ?thesis
      by (subst (asm) find_split_index.simps) simp
  next
    case False
    show ?thesis
    proof (cases "j = i")
      case True
      with False show ?thesis by simp
    next
      case ne: False
      with "1.prems" have "i \<noteq> 0" and "j \<le> i - 1" by auto
      moreover from "1.prems"(1) False \<open>i \<noteq> 0\<close> have "find_split_index Remaining (i - 1) = Some k"
        by (subst (asm) find_split_index.simps) simp
      ultimately show ?thesis
        using "1.IH" [OF False] "1.prems"(2) by simp
    qed
  qed
qed

lemma find_split_index_None:
  "find_split_index Remaining i = None \<Longrightarrow> j \<le> i \<Longrightarrow> Remaining ! j \<noteq> CHR '' ''"
proof (induction Remaining i rule: find_split_index.induct)
  case (1 Remaining i)
  from "1.prems"(1) have here: "Remaining ! i \<noteq> CHR '' ''"
    by (subst (asm) find_split_index.simps) (simp split: if_splits)
  show ?case
  proof (cases "j = i")
    case True
    with here show ?thesis by simp
  next
    case False
    with "1.prems" have "i \<noteq> 0" and "j \<le> i - 1" by auto
    moreover from "1.prems"(1) here \<open>i \<noteq> 0\<close> have "find_split_index Remaining (i - 1) = None"
      by (subst (asm) find_split_index.simps) simp
    ultimately show ?thesis
      using "1.IH" [OF here] by simp
  qed
qed

lemma split_index_le: "split_index Remaining MaxLen \<le> MaxLen"
  by (auto simp: split_index_def split: option.split dest: find_split_index_Some)

lemma split_index_space:
  assumes "i \<le> MaxLen" and "Remaining ! i = CHR '' ''"
  shows "Remaining ! split_index Remaining MaxLen = CHR '' ''"
    and "split_index Remaining MaxLen < j \<Longrightarrow> j \<le> MaxLen \<Longrightarrow> Remaining ! j \<noteq> CHR '' ''"
proof -
  from assms obtain k where k: "find_split_index Remaining MaxLen = Some k"
    by (cases "find_split_index Remaining MaxLen") (auto dest: find_split_index_None)
  then show "Remaining ! split_index Remaining MaxLen = CHR '' ''"
    by (auto simp: split_index_def dest: find_split_index_Some)
  show "Remaining ! j \<noteq> CHR '' ''" if "split_index Remaining MaxLen < j" "j \<le> MaxLen"
    using k that find_split_index_nearest [of Remaining MaxLen k j] by (simp add: split_index_def)
qed

lemma split_index_no_space:
  assumes "\<forall>i \<le> MaxLen. Remaining ! i \<noteq> CHR '' ''"
  shows "split_index Remaining MaxLen = MaxLen"
  using assms by (auto simp: split_index_def split: option.split dest: find_split_index_Some)

lemma SplitTextByLength_loop_step:
  assumes "0 < MaxLen" and "MaxLen < length Remaining"
  shows "SplitTextByLength_loop MaxLen Remaining Result =
           SplitTextByLength_loop MaxLen (TrimStart (drop (split_index Remaining MaxLen) Remaining))
             (Result @ [TrimStartAndEnd (take (split_index Remaining MaxLen) Remaining)])"
  using assms
  by (subst SplitTextByLength_loop.simps) (simp add: split_index_def Mid_def Left_def Let_def)

lemma SplitTextByLength_loop_stop:
  assumes "\<not> (0 < MaxLen \<and> MaxLen < length Remaining)"
  shows "SplitTextByLength_loop MaxLen Remaining Result = (Remaining, Result)"
  using assms by (subst SplitTextByLength_loop.simps) auto

lemma length_TrimStartAndEnd_le: "length (TrimStartAndEnd S) \<le> length S"
proof -
  have "length (TrimEnd S) \<le> length S"
    using length_dropWhile_le [of IsWhitespace "rev S"] by (simp add: TrimEnd_def)
  with length_TrimStart_le [of "TrimEnd S"] show ?thesis
    by (simp add: TrimStartAndEnd_def)
qed

lemma SplitTextByLength_loop_segments:
  "0 < MaxLen \<Longrightarrow> \<forall>Seg \<in> set Result. length Seg \<le> MaxLen \<Longrightarrow>
   (\<forall>Seg \<in> set (snd (SplitTextByLength_loop MaxLen Remaining Result)). length Seg \<le> MaxLen) \<and>
   length (fst (SplitTextByLength_loop MaxLen Remaining Result)) \<le> MaxLen"
proof (induction MaxLen Remaining Result rule: SplitTextByLength_loop.induct)
  case (1 MaxLen Remaining Result)
  show ?case
  proof (cases "0 < MaxLen \<and> MaxLen < length Remaining")
    case True
    let ?k = "split_index Remaining MaxLen"
    have "length (TrimStartAndEnd (take ?k Remaining)) \<le> MaxLen"
      using length_TrimStartAndEnd_le [of "take ?k Remaining"] split_index_le [of Remaining MaxLen]
      by simp
    with "1.prems"(2)
    have segs: "\<forall>Seg \<in> set (Result @ [TrimStartAndEnd (Left Remaining ?k)]). length Seg \<le> MaxLen"
      by (simp add: Left_def)
    have k: "?k = (case find_split_index Remaining MaxLen of None \<Rightarrow> MaxLen | Some i \<Rightarrow> i)"
      by (simp add: split_index_def)
    from "1.IH" [OF True k "1.prems"(1) segs] show ?thesis
      using True by (simp add: SplitTextByLength_loop_step split_index_def Mid_def Left_def)
  next
    case False
    then have "SplitTextByLength_loop MaxLen Remaining Result = (Remaining, Result)"
      by (rule SplitTextByLength_loop_stop)
    with False "1.prems" show ?thesis
      by auto
  qed
qed

lemma SplitTextByLength_loop_append:
  "SplitTextByLength_loop MaxLen Remaining (A @ B) =
     (fst (SplitTextByLength_loop MaxLen Remaining B), A @ snd (SplitTextByLength_loop MaxLen Remaining B))"
proof (induction MaxLen Remaining B arbitrary: A rule: SplitTextByLength_loop.induct)
  case (1 MaxLen Remaining Result)
  show ?case
  proof (cases "0 < MaxLen \<and> MaxLen < length Remaining")
    case True
    let ?k = "split_index Remaining MaxLen"
    have k: "?k = (case find_split_index Remaining MaxLen of None \<Rightarrow> MaxLen | Some i \<Rightarrow> i)"
      by (simp add: split_index_def)
    from "1.IH" [OF True k, of A] True show ?thesis
      by (simp add: SplitTextByLength_loop_step [of MaxLen Remaining] split_index_def Mid_def Left_def)
  next
    case False
    then show ?thesis
      by (simp add: SplitTextByLength_loop_stop)
  qed
qed

text \<open>What the function returns in terms of the loop, and its first segment.\<close>

lemma SplitTextByLength_by_loop:
  assumes "0 < MaxLen"
  shows "SplitTextByLength Text' MaxLen =
           snd (SplitTextByLength_loop (nat MaxLen) Text' []) @
           (if fst (SplitTextByLength_loop (nat MaxLen) Text' []) \<noteq> []
            then [TrimStartAndEnd (fst (SplitTextByLength_loop (nat MaxLen) Text' []))] else [])"
proof (cases "Text' = []")
  case True
  then show ?thesis
    by (simp add: SplitTextByLength_def SplitTextByLength_loop_stop)
next
  case False
  with assms show ?thesis
    by (simp add: SplitTextByLength_def split: prod.split)
qed

lemma SplitTextByLength_unfold:
  assumes "0 < MaxLen" and "MaxLen < int (length Text')"
  shows "SplitTextByLength Text' MaxLen =
           TrimStartAndEnd (take (split_index Text' (nat MaxLen)) Text') #
           SplitTextByLength (TrimStart (drop (split_index Text' (nat MaxLen)) Text')) MaxLen"
proof -
  let ?k = "split_index Text' (nat MaxLen)"
  let ?R = "TrimStart (drop ?k Text')"
  let ?seg = "TrimStartAndEnd (take ?k Text')"
  from assms have c: "0 < nat MaxLen" "nat MaxLen < length Text'" by auto
  have "SplitTextByLength_loop (nat MaxLen) Text' [] = SplitTextByLength_loop (nat MaxLen) ?R ([?seg] @ [])"
    using SplitTextByLength_loop_step [OF c, of "[]"] by simp
  also have "\<dots> = (fst (SplitTextByLength_loop (nat MaxLen) ?R []),
                    [?seg] @ snd (SplitTextByLength_loop (nat MaxLen) ?R []))"
    by (rule SplitTextByLength_loop_append)
  finally show ?thesis
    by (simp add: SplitTextByLength_by_loop [OF assms(1)])
qed

lemma SplitTextByLength_short:
  assumes "Text' \<noteq> []" and "int (length Text') \<le> MaxLen"
  shows "SplitTextByLength Text' MaxLen = [TrimStartAndEnd Text']"
proof -
  from assms have pos: "0 < MaxLen" by (cases Text') auto
  from assms(2) pos have "\<not> nat MaxLen < length Text'" by auto
  then have "SplitTextByLength_loop (nat MaxLen) Text' [] = (Text', [])"
    by (subst SplitTextByLength_loop.simps) simp
  with assms(1) pos show ?thesis
    by (simp add: SplitTextByLength_def)
qed

lemma SplitTextByLength_space_example: "SplitTextByLength ''aaaa bbbb cccc'' 9 = [''aaaa bbbb'', ''cccc'']"
  by (simp add: SplitTextByLength_def SplitTextByLength_loop.simps find_split_index.simps
      Mid_def Left_def TrimStart_def TrimEnd_def TrimStartAndEnd_def IsWhitespace_def)

lemma SplitTextByLength_forced_example: "SplitTextByLength ''abcdefgh'' 3 = [''abc'', ''def'', ''gh'']"
  by (simp add: SplitTextByLength_def SplitTextByLength_loop.simps find_split_index.simps
      Mid_def Left_def TrimStart_def TrimEnd_def TrimStartAndEnd_def IsWhitespace_def)

text \<open>
  C9. For every text and every \<open>MaxLen \<ge> 1\<close>, every segment that \<^verbatim>\<open>SplitTextByLength\<close>
  returns has at most \<open>MaxLen\<close> characters. When the text is longer than \<open>MaxLen\<close> it is cut
  at an index \<open>k \<le> MaxLen\<close>: the first segment is the trimmed text before \<open>k\<close>, and the
  rest of the result is the wrapping of the text from \<open>k\<close> on (so every later cut obeys the
  same rule). If a space exists at an index up to \<open>MaxLen\<close>, \<open>k\<close> is the last such index; if
  none exists, \<open>k = MaxLen\<close>.
\<close>

theorem SplitTextByLength_wraps:
  assumes "1 \<le> MaxLen"
  shows "(\<forall>Seg \<in> set (SplitTextByLength Text' MaxLen). int (length Seg) \<le> MaxLen) \<and>
         (MaxLen < int (length Text') \<longrightarrow>
           (\<exists>k \<le> nat MaxLen.
              SplitTextByLength Text' MaxLen =
                TrimStartAndEnd (take k Text') # SplitTextByLength (TrimStart (drop k Text')) MaxLen \<and>
              ((\<exists>i \<le> nat MaxLen. Text' ! i = CHR '' '') \<longrightarrow>
                 Text' ! k = CHR '' '' \<and> (\<forall>j. k < j \<and> j \<le> nat MaxLen \<longrightarrow> Text' ! j \<noteq> CHR '' '')) \<and>
              ((\<forall>i \<le> nat MaxLen. Text' ! i \<noteq> CHR '' '') \<longrightarrow> k = nat MaxLen)))"
proof
  from assms have pos: "0 < MaxLen" "0 < nat MaxLen" by auto
  have seg: "(\<forall>Seg \<in> set (snd (SplitTextByLength_loop (nat MaxLen) Text' [])). length Seg \<le> nat MaxLen) \<and>
        length (fst (SplitTextByLength_loop (nat MaxLen) Text' [])) \<le> nat MaxLen"
    by (rule SplitTextByLength_loop_segments [OF pos(2)]) simp
  have "length (TrimStartAndEnd (fst (SplitTextByLength_loop (nat MaxLen) Text' []))) \<le> nat MaxLen"
    using seg length_TrimStartAndEnd_le [of "fst (SplitTextByLength_loop (nat MaxLen) Text' [])"]
    by simp
  with seg have "\<forall>Seg \<in> set (SplitTextByLength Text' MaxLen). length Seg \<le> nat MaxLen"
    by (auto simp: SplitTextByLength_by_loop [OF pos(1)])
  with pos show "\<forall>Seg \<in> set (SplitTextByLength Text' MaxLen). int (length Seg) \<le> MaxLen"
    by auto
next
  from assms have pos: "0 < MaxLen" by simp
  show "MaxLen < int (length Text') \<longrightarrow>
           (\<exists>k \<le> nat MaxLen.
              SplitTextByLength Text' MaxLen =
                TrimStartAndEnd (take k Text') # SplitTextByLength (TrimStart (drop k Text')) MaxLen \<and>
              ((\<exists>i \<le> nat MaxLen. Text' ! i = CHR '' '') \<longrightarrow>
                 Text' ! k = CHR '' '' \<and> (\<forall>j. k < j \<and> j \<le> nat MaxLen \<longrightarrow> Text' ! j \<noteq> CHR '' '')) \<and>
              ((\<forall>i \<le> nat MaxLen. Text' ! i \<noteq> CHR '' '') \<longrightarrow> k = nat MaxLen))"
  proof
    assume long: "MaxLen < int (length Text')"
    let ?k = "split_index Text' (nat MaxLen)"
    have "?k \<le> nat MaxLen"
      by (rule split_index_le)
    moreover have "SplitTextByLength Text' MaxLen =
        TrimStartAndEnd (take ?k Text') # SplitTextByLength (TrimStart (drop ?k Text')) MaxLen"
      by (rule SplitTextByLength_unfold [OF pos long])
    moreover have "(\<exists>i \<le> nat MaxLen. Text' ! i = CHR '' '') \<longrightarrow>
        Text' ! ?k = CHR '' '' \<and> (\<forall>j. ?k < j \<and> j \<le> nat MaxLen \<longrightarrow> Text' ! j \<noteq> CHR '' '')"
      using split_index_space [of _ "nat MaxLen" Text'] by blast
    moreover have "(\<forall>i \<le> nat MaxLen. Text' ! i \<noteq> CHR '' '') \<longrightarrow> ?k = nat MaxLen"
      using split_index_no_space [of "nat MaxLen" Text'] by blast
    ultimately show "\<exists>k \<le> nat MaxLen.
              SplitTextByLength Text' MaxLen =
                TrimStartAndEnd (take k Text') # SplitTextByLength (TrimStart (drop k Text')) MaxLen \<and>
              ((\<exists>i \<le> nat MaxLen. Text' ! i = CHR '' '') \<longrightarrow>
                 Text' ! k = CHR '' '' \<and> (\<forall>j. k < j \<and> j \<le> nat MaxLen \<longrightarrow> Text' ! j \<noteq> CHR '' '')) \<and>
              ((\<forall>i \<le> nat MaxLen. Text' ! i \<noteq> CHR '' '') \<longrightarrow> k = nat MaxLen)"
      by blast
  qed
qed

theorem SplitTextByLength_wraps_witness:
  "(1::int) \<le> 9 \<and> 9 < int (length ''aaaa bbbb cccc'') \<and> ''aaaa bbbb cccc'' ! 9 = CHR '' '' \<and>
   SplitTextByLength ''aaaa bbbb cccc'' 9 = [''aaaa bbbb'', ''cccc''] \<and>
   int (length ''aaaa bbbb'') \<le> 9 \<and> int (length ''cccc'') \<le> 9 \<and>
   (1::int) \<le> 3 \<and> 3 < int (length ''abcdefgh'') \<and>
   SplitTextByLength ''abcdefgh'' 3 = [''abc'', ''def'', ''gh'']"
  using SplitTextByLength_wraps [of 9 "''aaaa bbbb cccc''"] SplitTextByLength_wraps [of 3 "''abcdefgh''"]
  by (simp add: SplitTextByLength_space_example SplitTextByLength_forced_example)

section \<open>Properties of the parser\<close>

lemma ParsePauseDuration_parsed:
  "ParsePauseDuration V = Some p \<Longrightarrow> p \<in> parsed_pauses"
  by (auto simp: ParsePauseDuration_def parsed_pauses_def Let_def split: if_splits)

lemma parse_named_parameter_pause:
  assumes "OutPause (fst AE) \<in> parsed_pauses"
  shows "OutPause (fst (parse_named_parameter Atof Fld AE)) \<in> parsed_pauses"
proof (cases AE)
  case (Pair A E)
  with assms show ?thesis
    by (auto simp: parse_named_parameter_def Let_def ParsePauseDuration_parsed
        split: option.splits prod.splits)
qed

lemma fold_parse_named_parameter_pause:
  "OutPause (fst AE) \<in> parsed_pauses \<Longrightarrow>
   OutPause (fst (fold (parse_named_parameter Atof) Flds AE)) \<in> parsed_pauses"
  by (induction Flds arbitrary: AE) (simp_all add: parse_named_parameter_pause)

lemma ParseLineAttributes_Inr:
  assumes "ParseLineAttributes Atof Line = Inr AE"
  shows "\<exists>T An E0. AE = fold (parse_named_parameter Atof)
            (drop 2 (map TrimStartAndEnd (ParseIntoArray Line ''|'' False)))
            (\<lparr>OutText = T, OutAnim = An, OutSpeed = Speed_Standard, OutPause = Pause_None,
              OutEffect = Effect_None, OutOffset = ZeroVector\<rparr>, E0)"
  using assms unfolding ParseLineAttributes_def Let_def
  by (simp split: if_splits option.splits) blast+

lemma ParseLineAttributes_pause:
  assumes "ParseLineAttributes Atof Line = Inr (A, E)"
  shows "OutPause A \<in> parsed_pauses"
proof -
  from ParseLineAttributes_Inr [OF assms] obtain T An E0 where
    f: "(A, E) = fold (parse_named_parameter Atof)
            (drop 2 (map TrimStartAndEnd (ParseIntoArray Line ''|'' False)))
            (\<lparr>OutText = T, OutAnim = An, OutSpeed = Speed_Standard, OutPause = Pause_None,
              OutEffect = Effect_None, OutOffset = ZeroVector\<rparr>, E0)"
    by blast
  have "OutPause (fst (fold (parse_named_parameter Atof)
            (drop 2 (map TrimStartAndEnd (ParseIntoArray Line ''|'' False)))
            (\<lparr>OutText = T, OutAnim = An, OutSpeed = Speed_Standard, OutPause = Pause_None,
              OutEffect = Effect_None, OutOffset = ZeroVector\<rparr>, E0))) \<in> parsed_pauses"
    by (rule fold_parse_named_parameter_pause) (simp add: parsed_pauses_def)
  with f [symmetric] show ?thesis by simp
qed

lemma ProcessTextToLines_pauses:
  assumes "Pause \<in> parsed_pauses" and "lines_pauses_ok OutLines"
  shows "lines_pauses_ok (ProcessTextToLines T Anim Sp Pause Eff Off OutLines M)"
proof -
  have lb: "Pause_LineBreak \<in> parsed_pauses"
    by (simp add: parsed_pauses_def)
  show ?thesis
    using assms lb by (auto simp: ProcessTextToLines_def Let_def lines_pauses_ok_def)
qed

lemma fold_ProcessTextToLines_pauses:
  assumes "Pause \<in> parsed_pauses"
  shows "lines_pauses_ok Ls \<Longrightarrow>
         lines_pauses_ok (fold (\<lambda>Pending Ls. ProcessTextToLines Pending Anim Sp Pause Eff Off Ls M) Ps Ls)"
  by (induction Ps arbitrary: Ls) (simp_all add: ProcessTextToLines_pauses [OF assms])

lemma update_screen_pauses:
  assumes "story_pauses_ok (OutStory st)"
    and "\<And>S. lines_pauses_ok (Lines S) \<Longrightarrow> lines_pauses_ok (Lines (f S))"
  shows "story_pauses_ok (OutStory (update_screen k f st))"
proof (cases "k < length (Screens (OutStory st))")
  case True
  then have "Screens (OutStory st) ! k \<in> set (Screens (OutStory st))"
    by simp
  with assms(1) have "lines_pauses_ok (Lines (Screens (OutStory st) ! k))"
    by (simp add: story_pauses_ok_def)
  then have "lines_pauses_ok (Lines (f (Screens (OutStory st) ! k)))"
    by (rule assms(2))
  with assms(1) show ?thesis
    by (auto simp: story_pauses_ok_def update_screen_def dest!: set_update_subset_insert [THEN subsetD])
next
  case False
  with assms(1) show ?thesis
    by (simp add: story_pauses_ok_def update_screen_def list_update_beyond)
qed

lemma update_screen_fields [simp]:
  "OutErrors (update_screen k f st) = OutErrors st"
  "PendingLines (update_screen k f st) = PendingLines st"
  "ParseState (update_screen k f st) = ParseState st"
  "CurrentScreen (update_screen k f st) = CurrentScreen st"
  "bFoundStorySection (update_screen k f st) = bFoundStorySection st"
  "StoryMetadata (update_screen k f st) = StoryMetadata st"
  by (simp_all add: update_screen_def)

lemma SpacerLine_pause: "lines_pauses_ok Ls \<Longrightarrow> lines_pauses_ok (Ls @ [SpacerLine])"
  by (simp add: lines_pauses_ok_def SpacerLine_def parsed_pauses_def)

lemma Pause_None_parsed: "Pause_None \<in> parsed_pauses"
  by (simp add: parsed_pauses_def)

lemma update_screen_keep_lines:
  assumes "story_pauses_ok (OutStory st)" and "\<And>S. Lines (f S) = Lines S"
  shows "story_pauses_ok (OutStory (update_screen k f st))"
  by (rule update_screen_pauses [OF assms(1)]) (simp add: assms(2))

lemma apply_screen_metadata_pauses:
  assumes "story_pauses_ok (OutStory st)"
  shows "story_pauses_ok (OutStory (apply_screen_metadata k Meta st))"
  using assms unfolding apply_screen_metadata_def Let_def
  by (auto split: option.split intro!: update_screen_keep_lines)

lemma add_timed_event_pauses:
  assumes "story_pauses_ok (OutStory st)"
  shows "story_pauses_ok (OutStory (add_timed_event Atof n Line k st))"
  using assms unfolding add_timed_event_def
  by (auto split: sum.split intro!: update_screen_keep_lines)

lemma add_spacer_pauses:
  assumes "story_pauses_ok (OutStory st)"
  shows "story_pauses_ok (OutStory (add_spacer n k st))"
  using assms unfolding add_spacer_def Let_def
  by (auto intro!: update_screen_pauses SpacerLine_pause)

lemma add_finisher_line_pauses:
  assumes "story_pauses_ok (OutStory st)"
  shows "story_pauses_ok (OutStory (add_finisher_line Atof M n Line k st))"
proof (cases "ParseLineAttributes Atof Line")
  case (Inl LineError)
  with assms show ?thesis
    by (simp add: add_finisher_line_def)
next
  case (Inr AE)
  obtain A LineError where AE: "AE = (A, LineError)"
    by (cases AE)
  from Inr AE have p: "OutPause A \<in> parsed_pauses"
    by (auto dest: ParseLineAttributes_pause)
  let ?st1 = "update_screen k (\<lambda>S. S\<lparr>Lines :=
                       fold (\<lambda>Pending Ls. ProcessTextToLines Pending (OutAnim A) (OutSpeed A) Pause_None
                                             (OutEffect A) (OutOffset A) Ls M)
                            (PendingLines st) (Lines S)\<rparr>) st"
  let ?st2 = "update_screen k (\<lambda>S. S\<lparr>Lines :=
                       ProcessTextToLines (OutText A) (OutAnim A) (OutSpeed A) (OutPause A)
                         (OutEffect A) (OutOffset A) (Lines S) M\<rparr>) ?st1"
  let ?st3 = "update_screen k (\<lambda>S. S\<lparr>Lines := Lines S @ [SpacerLine]\<rparr>) ?st2"
  have s1: "story_pauses_ok (OutStory ?st1)"
    by (rule update_screen_pauses [OF assms])
       (simp add: fold_ProcessTextToLines_pauses [OF Pause_None_parsed])
  have s2: "story_pauses_ok (OutStory ?st2)"
    by (rule update_screen_pauses [OF s1]) (simp add: ProcessTextToLines_pauses [OF p])
  have s3: "story_pauses_ok (OutStory ?st3)"
    by (rule update_screen_pauses [OF s2]) (simp add: SpacerLine_pause)
  from Inr AE s3 show ?thesis
    by (simp add: add_finisher_line_def Let_def)
qed

lemma parse_screen_content_pauses:
  assumes "story_pauses_ok (OutStory st)"
  shows "story_pauses_ok (OutStory (parse_screen_content Atof M n Line k st))"
  using assms
  unfolding parse_screen_content_def Let_def
  by (simp add: apply_screen_metadata_pauses add_timed_event_pauses add_spacer_pauses
      add_finisher_line_pauses)

lemma story_pauses_ok_new_screen:
  assumes "story_pauses_ok Story"
  shows "story_pauses_ok (Story\<lparr>Screens := Screens Story @ [FStoryScreen_default]\<rparr>)"
  using assms by (simp add: story_pauses_ok_def lines_pauses_ok_def FStoryScreen_default_def)

lemma parse_line_pauses:
  assumes "story_pauses_ok (OutStory st)"
  shows "story_pauses_ok (OutStory (parse_line Atof M n Raw st))"
  using assms
  unfolding parse_line_def Let_def
  by (simp add: parse_screen_content_pauses story_pauses_ok_new_screen
      split: option.split EParseState.split)

lemma parse_lines_pauses:
  "story_pauses_ok (OutStory st) \<Longrightarrow> story_pauses_ok (OutStory (parse_lines Atof M n Ls st))"
  by (induction Ls arbitrary: n st) (simp_all add: parse_line_pauses)

lemma ParseStoryFromString_pauses:
  "story_pauses_ok (fst (snd (ParseStoryFromString Atof StoryText M)))"
proof -
  have init: "story_pauses_ok (OutStory ParseLocals_init)"
    by (simp add: story_pauses_ok_def ParseLocals_init_def FShortStory_default_def)
  have "story_pauses_ok (OutStory (parse_lines Atof M 1 (ParseIntoArrayLines StoryText) ParseLocals_init))"
    by (rule parse_lines_pauses [OF init])
  then show ?thesis
    by (auto simp: ParseStoryFromString_def Let_def story_pauses_ok_def FShortStory_default_def
        split: option.splits)
qed

lemma parse_continuation:
  assumes "5 \<le> MaxLineLength"
  shows "ParseStoryFromString Atof story_text_continuation MaxLineLength =
     (True,
      FShortStory_default\<lparr>Title := ''T'', Screens :=
        [FStoryScreen_default\<lparr>Lines :=
           [parsed_line ''A'' Pause_None, parsed_line ''B'' Pause_None,
            parsed_line ''Final'' Pause_Long, SpacerLine]\<rparr>]\<rparr>,
      [])"
  using assms
  by (simp add: story_text_continuation_def parsed_line_def parser_defs string_defs SplitTextByLength_short)

lemma parse_bad_offset:
  "ParseStoryFromString Atof story_text_bad_offset 80 =
     (True,
      FShortStory_default\<lparr>Title := ''T'', Screens :=
        [FStoryScreen_default\<lparr>Lines := [parsed_line ''Hello'' Pause_None, SpacerLine]\<rparr>]\<rparr>,
      [])"
  by (simp add: story_text_bad_offset_def parsed_line_def parser_defs string_defs SplitTextByLength_short)

lemma parse_topdown3:
  "ParseStoryFromString Atof story_text_topdown3 80 = (True, story_topdown3, [])"
  by (simp add: story_text_topdown3_def story_topdown3_def demo_line_def demo_screen_def
      parser_defs string_defs SplitTextByLength_short)

lemma parse_ltr:
  "ParseStoryFromString Atof story_text_ltr 80 = (True, story_ltr, [])"
  by (simp add: story_text_ltr_def story_ltr_def demo_line_def demo_screen_def
      parser_defs string_defs SplitTextByLength_short)

lemma attrs_bad_offset:
  "ParseLineAttributes Atof ''Hello | typewriter | offset=abc'' =
     Inr (\<lparr>OutText = ''Hello'', OutAnim = Anim_Typewriter, OutSpeed = Speed_Standard,
            OutPause = Pause_None, OutEffect = Effect_None, OutOffset = ZeroVector\<rparr>,
          ''Invalid offset format '' @ quoted ''abc'' @ '' (expected X,Y)'')"
  by (simp add: parser_defs string_defs)

text \<open>
  C2, as the claim states it, fails: the two continuation lines \<open>A\<close> and \<open>B\<close> are emitted
  with the forced pause None, not LineBreak.
\<close>

theorem continuation_block_pauses_counterexample:
  "map PauseDuration
     (Lines (Screens (fst (snd (ParseStoryFromString Atof_zero story_text_continuation 80))) ! 0))
   = [Pause_None, Pause_None, Pause_Long, Pause_None] \<and>
   map PauseDuration
     (Lines (Screens (fst (snd (ParseStoryFromString Atof_zero story_text_continuation 80))) ! 0))
   \<noteq> [Pause_LineBreak, Pause_LineBreak, Pause_Long, Pause_None]"
  by (simp add: parse_continuation parsed_line_def SpacerLine_def FStoryLine_default_def
      FStoryScreen_default_def FShortStory_default_def)

text \<open>
  C2, amended. With a maximum line length of at least 5 (so that \<open>Final\<close> is not wrapped),
  parsing a screen whose content is the three lines \<open>A\<close>, \<open>B\<close>,
  \<open>Final | typewriter | pause=long\<close> gives one screen with four lines: the texts \<open>A\<close>, \<open>B\<close>,
  \<open>Final\<close> with pauses None, None, Long in that order, followed by exactly one spacer line
  with pause None.
\<close>

theorem continuation_block_pauses:
  assumes "5 \<le> MaxLineLength"
  shows "length (Screens (fst (snd (ParseStoryFromString Atof story_text_continuation MaxLineLength)))) = 1 \<and>
    map Text
      (Lines (Screens (fst (snd (ParseStoryFromString Atof story_text_continuation MaxLineLength))) ! 0))
      = [''A'', ''B'', ''Final'', '' ''] \<and>
    map PauseDuration
      (Lines (Screens (fst (snd (ParseStoryFromString Atof story_text_continuation MaxLineLength))) ! 0))
      = [Pause_None, Pause_None, Pause_Long, Pause_None] \<and>
    Lines (Screens (fst (snd (ParseStoryFromString Atof story_text_continuation MaxLineLength))) ! 0) ! 3
      = SpacerLine"
  by (simp add: parse_continuation [OF assms] parsed_line_def SpacerLine_def FStoryLine_default_def
      FStoryScreen_default_def FShortStory_default_def)

theorem continuation_block_pauses_witness:
  "(5::int) \<le> 80 \<and>
   map PauseDuration
     (Lines (Screens (fst (snd (ParseStoryFromString Atof_zero story_text_continuation 80))) ! 0))
   = [Pause_None, Pause_None, Pause_Long, Pause_None]"
  using continuation_block_pauses [of 80 Atof_zero] by simp

text \<open>
  The pauses LineBreak, LineBreak, Long are those of one line cut by manual break markers.
\<close>

lemma manual_breaks_pauses:
  "map PauseDuration
     (Lines (Screens (fst (snd (ParseStoryFromString Atof story_text_manual_breaks 80))) ! 0))
   = [Pause_LineBreak, Pause_LineBreak, Pause_Long, Pause_None]"
  by (simp add: story_text_manual_breaks_def parser_defs string_defs SplitTextByLength_short)

text \<open>
  C6. The content line \<open>Hello | typewriter | offset=abc\<close> has a malformed offset.
  \<^verbatim>\<open>ParseLineAttributes\<close> accepts the line, leaves the offset at zero and writes the
  diagnostic into \<^verbatim>\<open>OutError\<close>; \<^verbatim>\<open>ParseStoryFromString\<close> emits the line and its spacer,
  and returns an empty diagnostic list: the diagnostic is lost.
\<close>

theorem malformed_offset_diagnostic_lost:
  "ParseLineAttributes Atof ''Hello | typewriter | offset=abc'' =
     Inr (\<lparr>OutText = ''Hello'', OutAnim = Anim_Typewriter, OutSpeed = Speed_Standard,
            OutPause = Pause_None, OutEffect = Effect_None, OutOffset = ZeroVector\<rparr>,
          ''Invalid offset format '' @ quoted ''abc'' @ '' (expected X,Y)'') \<and>
   ParseStoryFromString Atof story_text_bad_offset 80 =
     (True,
      FShortStory_default\<lparr>Title := ''T'', Screens :=
        [FStoryScreen_default\<lparr>Lines := [parsed_line ''Hello'' Pause_None, SpacerLine]\<rparr>]\<rparr>,
      [])"
  by (simp only: attrs_bad_offset parse_bad_offset simp_thms)

text \<open>
  The loss is the same for every finisher line that \<^verbatim>\<open>ParseLineAttributes\<close> accepts: the
  branch never reads \<^verbatim>\<open>LineError\<close>. The deprecated \<^verbatim>\<open>ParseStoryLine\<close> hands it back.
\<close>

lemma add_finisher_line_keeps_errors:
  assumes "ParseLineAttributes Atof Line = Inr (A, LineError)"
  shows "OutErrors (add_finisher_line Atof MaxLineLength LineNumber Line k st) = OutErrors st"
  using assms by (simp add: add_finisher_line_def Let_def)

lemma ParseStoryLine_returns_error:
  assumes "ParseLineAttributes Atof Line = Inr (A, LineError)"
  shows "snd (snd (ParseStoryLine Atof Line OutLines)) = LineError"
  using assms by (simp add: ParseStoryLine_def)

text \<open>
  C10. For every input text, every maximum line length and every number conversion, every
  line of the story that \<^verbatim>\<open>ParseStoryFromString\<close> returns has a pause kind among None,
  Short, Standard, Long and LineBreak: never Wait.
\<close>

theorem parsed_pause_never_wait:
  "\<forall>S \<in> set (Screens (fst (snd (ParseStoryFromString Atof StoryText MaxLineLength)))).
     \<forall>L \<in> set (Lines S).
       PauseDuration L \<in> {Pause_None, Pause_Short, Pause_Standard, Pause_Long, Pause_LineBreak}"
  using ParseStoryFromString_pauses [of Atof StoryText MaxLineLength]
  by (simp add: story_pauses_ok_def lines_pauses_ok_def parsed_pauses_def)

theorem parsed_pause_never_wait_witness:
  "PauseDuration
     (Lines (Screens (fst (snd (ParseStoryFromString Atof_zero story_text_continuation 80))) ! 0) ! 2)
   \<in> {Pause_None, Pause_Short, Pause_Standard, Pause_Long, Pause_LineBreak} \<and>
   PauseDuration
     (Lines (Screens (fst (snd (ParseStoryFromString Atof_zero story_text_continuation 80))) ! 0) ! 2)
   = Pause_Long"
proof -
  let ?Story = "fst (snd (ParseStoryFromString Atof_zero story_text_continuation 80))"
  have s: "Screens ?Story ! 0 \<in> set (Screens ?Story)"
    by (simp add: parse_continuation)
  have l: "Lines (Screens ?Story ! 0) ! 2 \<in> set (Lines (Screens ?Story ! 0))"
    by (simp add: parse_continuation)
  have v: "PauseDuration (Lines (Screens ?Story ! 0) ! 2) = Pause_Long"
    by (simp add: parse_continuation parsed_line_def)
  from parsed_pause_never_wait [of Atof_zero story_text_continuation 80] s l
  have "PauseDuration (Lines (Screens ?Story ! 0) ! 2)
          \<in> {Pause_None, Pause_Short, Pause_Standard, Pause_Long, Pause_LineBreak}"
    by blast
  with v show ?thesis
    by simp
qed

section \<open>Properties of the player\<close>

text \<open>
  C1. The story parsed from \<open>story_text_topdown3\<close> opens with a block of three TopDown
  lines, each of per-line duration \<open>2\<close> (the block duration of the default timing table).
  The claim gives the block the duration \<open>2 \<times> 0.2 + 2\<close>. \<^verbatim>\<open>StartLine\<close> starts the
  three lines at \<open>0\<close>, \<open>0.2\<close> and \<open>0.4\<close>, but adds the stagger before it takes the finish
  time of a line, so the block lasts \<open>3 \<times> 0.2 + 2\<close>.
\<close>

theorem StartLine_topdown_block_of_three:
  "fst (snd (ParseStoryFromString Atof_zero story_text_topdown3 80)) = story_topdown3 \<and>
   CalculateLineDuration UShortStorySubsystem_init (Lines (Screens story_topdown3 ! 0) ! 0) = 2 \<and>
   CalculateLineDuration UShortStorySubsystem_init (Lines (Screens story_topdown3 ! 0) ! 1) = 2 \<and>
   CalculateLineDuration UShortStorySubsystem_init (Lines (Screens story_topdown3 ! 0) ! 2) = 2 \<and>
   LineStartTimes (snd (StartStory (Some story_topdown3) UShortStorySubsystem_init))
     = [0, CascadeDelay, 2 * CascadeDelay, - 1] \<and>
   CurrentLineIndex (snd (StartStory (Some story_topdown3) UShortStorySubsystem_init)) = 2 \<and>
   LineDuration (snd (StartStory (Some story_topdown3) UShortStorySubsystem_init))
     = 3 * CascadeDelay + 2 \<and>
   LineDuration (snd (StartStory (Some story_topdown3) UShortStorySubsystem_init))
     \<noteq> 2 * CascadeDelay + 2"
  by (simp add: parse_topdown3) (simp add: story_topdown3_def SpacerLine_def player_defs)

text \<open>
  The same off-by-one for every block of this shape: a screen of \<open>n\<close> TopDown lines, each
  of per-line duration \<open>d \<ge> 0\<close>, started at its first line, lasts \<open>n\<close> staggers plus \<open>d\<close>
  (the last line itself starts after \<open>n - 1\<close> staggers).
\<close>

lemma block_end_loop_same_animation:
  "\<forall>j. i \<le> j \<and> j < length Ls \<longrightarrow> AnimationType (Ls ! j) = Anim \<Longrightarrow>
   block_end_loop Ls Anim i b = (if i < length Ls then length Ls - 1 else b)"
proof (induction Ls Anim i b rule: block_end_loop.induct)
  case (1 Ls Anim i BlockEndIndex)
  show ?case
  proof (cases "i < length Ls")
    case True
    with "1.prems" have a: "AnimationType (Ls ! i) = Anim" by simp
    from "1.prems" have "\<forall>j. i + 1 \<le> j \<and> j < length Ls \<longrightarrow> AnimationType (Ls ! j) = Anim"
      by simp
    from "1.IH" [OF True a this] True a show ?thesis
      by (subst block_end_loop.simps) (auto simp: not_less)
  next
    case False
    then show ?thesis
      by (subst block_end_loop.simps) simp
  qed
qed

lemma block_timing_loop_done:
  "BlockEndIndex < i \<Longrightarrow> block_timing_loop s Ls Anim BlockEndIndex i st = st"
  by (cases st) (simp add: block_timing_loop.simps)

lemma block_timing_loop_topdown_step:
  "i \<le> BlockEndIndex \<Longrightarrow>
   block_timing_loop s Ls Anim_TopDown BlockEndIndex i (Starts, CurrentDelay, MaxFinishTime) =
   block_timing_loop s Ls Anim_TopDown BlockEndIndex (i + 1)
     (if i < length Starts then Starts[i := ScreenElapsedTime s + CurrentDelay] else Starts,
      CurrentDelay + CascadeDelay,
      if (CurrentDelay + CascadeDelay) + CalculateLineDuration s (Ls ! i) > MaxFinishTime
      then (CurrentDelay + CascadeDelay) + CalculateLineDuration s (Ls ! i) else MaxFinishTime)"
  by (subst block_timing_loop.simps) (simp add: Let_def)

lemma block_timing_loop_topdown_uniform:
  assumes "\<forall>j. i \<le> j \<and> j \<le> E \<longrightarrow> CalculateLineDuration s (Ls ! j) = d"
    and "i \<le> E" and "Mx \<le> (D + CascadeDelay) + d"
  shows "snd (snd (block_timing_loop s Ls Anim_TopDown E i (St, D, Mx)))
           = D + real (E + 1 - i) * CascadeDelay + d"
  using assms
proof (induction "E - i" arbitrary: i St D Mx)
  case 0
  then have "i = E" by simp
  with "0.prems" show ?case
    by (simp add: block_timing_loop_topdown_step [of E E] block_timing_loop_done)
next
  case (Suc n)
  from Suc.hyps(2) have lt: "i < E" and n: "n = E - (i + 1)" by auto
  from Suc.prems(1) lt have di: "CalculateLineDuration s (Ls ! i) = d" by simp
  let ?Mx1 = "if (D + CascadeDelay) + d > Mx then (D + CascadeDelay) + d else Mx"
  have mx1: "?Mx1 = (D + CascadeDelay) + d"
    using Suc.prems(3) by simp
  have step: "block_timing_loop s Ls Anim_TopDown E i (St, D, Mx) =
      block_timing_loop s Ls Anim_TopDown E (i + 1)
        (if i < length St then St[i := ScreenElapsedTime s + D] else St, D + CascadeDelay, ?Mx1)"
    using block_timing_loop_topdown_step [of i E s Ls St D Mx] lt di by simp
  have "snd (snd (block_timing_loop s Ls Anim_TopDown E (i + 1)
          (if i < length St then St[i := ScreenElapsedTime s + D] else St, D + CascadeDelay, ?Mx1)))
        = (D + CascadeDelay) + real (E + 1 - (i + 1)) * CascadeDelay + d"
  proof (rule Suc.hyps(1) [OF n])
    show "\<forall>j. i + 1 \<le> j \<and> j \<le> E \<longrightarrow> CalculateLineDuration s (Ls ! j) = d"
      using Suc.prems(1) by simp
    show "i + 1 \<le> E" using lt by simp
    show "?Mx1 \<le> ((D + CascadeDelay) + CascadeDelay) + d"
      unfolding mx1 by (simp add: CascadeDelay_def)
  qed
  then have "snd (snd (block_timing_loop s Ls Anim_TopDown E i (St, D, Mx)))
        = (D + CascadeDelay) + real (E + 1 - (i + 1)) * CascadeDelay + d"
    unfolding step .
  moreover have "real (E + 1 - i) = real (E + 1 - (i + 1)) + 1"
    using lt by (simp add: of_nat_diff)
  ultimately show ?case
    by (simp only: algebra_simps)
qed

lemma StartLine_topdown_uniform_block:
  assumes scr: "CurrentScreenIndex s < length (Screens (CurrentStory s))"
    and Ls: "Ls = Lines (Screens (CurrentStory s) ! CurrentScreenIndex s)"
    and ne: "Ls \<noteq> []"
    and td: "\<forall>j < length Ls. AnimationType (Ls ! j) = Anim_TopDown"
    and du: "\<forall>j < length Ls. CalculateLineDuration s (Ls ! j) = d"
    and d: "0 \<le> d"
  shows "LineDuration (StartLine 0 s) = real (length Ls) * CascadeDelay + d"
    and "CurrentLineIndex (StartLine 0 s) = length Ls - 1"
proof -
  from ne have len: "0 < length Ls" by simp
  with td have a0: "AnimationType (Ls ! 0) = Anim_TopDown" by simp
  have e: "block_end_loop Ls Anim_TopDown (0 + 1) 0 = length Ls - 1"
    using td len by (subst block_end_loop_same_animation) auto
  have "snd (snd (block_timing_loop s Ls Anim_TopDown (length Ls - 1) 0 (LineStartTimes s, 0, 0)))
          = 0 + real (length Ls - 1 + 1 - 0) * CascadeDelay + d"
  proof (rule block_timing_loop_topdown_uniform)
    have "j < length Ls" if "j \<le> length Ls - 1" for j
      using that len by arith
    with du show "\<forall>j. 0 \<le> j \<and> j \<le> length Ls - 1 \<longrightarrow> CalculateLineDuration s (Ls ! j) = d"
      by simp
    show "0 \<le> length Ls - 1" by simp
    show "(0::real) \<le> (0 + CascadeDelay) + d"
      using d by (simp add: CascadeDelay_def)
  qed
  with len have m: "snd (snd (block_timing_loop s Ls Anim_TopDown (length Ls - 1) 0 (LineStartTimes s, 0, 0)))
          = real (length Ls) * CascadeDelay + d"
    by simp
  from scr Ls len a0 e m show "LineDuration (StartLine 0 s) = real (length Ls) * CascadeDelay + d"
    by (auto simp: StartLine_def Let_def split: prod.split)
  from scr Ls len a0 e show "CurrentLineIndex (StartLine 0 s) = length Ls - 1"
    by (simp add: StartLine_def Let_def split: prod.split)
qed

text \<open>
  C3. The story parsed from \<open>story_text_ltr\<close> opens with the LeftToRight line \<open>Hi\<close>. Under
  the default timing table the duration calculator gives the line the block duration \<open>2\<close>,
  while \<^verbatim>\<open>StartLine\<close> sets the line duration of the state machine to the typewriter sum
  of the text, \<open>2 \<times> 0.04\<close>.
\<close>

theorem StartLine_left_to_right_line:
  "fst (snd (ParseStoryFromString Atof_zero story_text_ltr 80)) = story_ltr \<and>
   AnimationType (Lines (Screens story_ltr ! 0) ! 0) = Anim_LeftToRight \<and>
   CalculateLineDuration UShortStorySubsystem_init (Lines (Screens story_ltr ! 0) ! 0) = 2 \<and>
   LineDuration (snd (StartStory (Some story_ltr) UShortStorySubsystem_init)) = 2 / 25"
  by (simp add: parse_ltr) (simp add: story_ltr_def SpacerLine_def player_defs)

text \<open>
  What \<^verbatim>\<open>StartLine\<close> does for every line outside a block: the line duration is the
  typewriter sum of the text, whatever the animation.
\<close>

lemma StartLine_single_line_duration:
  assumes "CurrentScreenIndex s < length (Screens (CurrentStory s))"
    and "LineIndex < length (Lines (Screens (CurrentStory s) ! CurrentScreenIndex s))"
    and "AnimationType (Lines (Screens (CurrentStory s) ! CurrentScreenIndex s) ! LineIndex) \<noteq> Anim_Paragraph"
    and "AnimationType (Lines (Screens (CurrentStory s) ! CurrentScreenIndex s) ! LineIndex) \<noteq> Anim_TopDown"
  shows "LineDuration (StartLine LineIndex s) =
           CalculateTypewriterDuration s
             (Text (Lines (Screens (CurrentStory s) ! CurrentScreenIndex s) ! LineIndex))
             (Speed (Lines (Screens (CurrentStory s) ! CurrentScreenIndex s) ! LineIndex))"
  using assms by (simp add: StartLine_def Let_def)

text \<open>
  C4. \<open>on_second_screen\<close> is a player on the second of three screens, whose transition
  counter still holds the two seconds of the transition that brought it there. Leaving the
  screen, by the next tick or by the debug skip, goes through \<^verbatim>\<open>AdvanceToNextScreen\<close>:
  the player enters the third screen in state TransitioningScreen with the counter still
  at \<open>2\<close>, not reset to \<open>0\<close>, and the next tick, however short, ends the transition.
\<close>

theorem AdvanceToNextScreen_transition_elapsed:
  "bIsPlaying on_second_screen \<and> CurrentScreenIndex on_second_screen = 1 \<and>
   length (Screens (CurrentStory on_second_screen)) = 3 \<and>
   TransitionElapsedTime on_second_screen = 2 \<and>
   CurrentState (AdvanceToNextScreen on_second_screen) = State_TransitioningScreen \<and>
   TransitionElapsedTime (AdvanceToNextScreen on_second_screen) = 2 \<and>
   DebugSkipToNextScreen on_second_screen = AdvanceToNextScreen on_second_screen"
  by (simp add: on_second_screen_def story3_def DebugSkipToNextScreen_def player_defs)

text \<open>
  The same on the ordinary path: the tick that ends the pause of the second screen enters
  the transition with two seconds on the counter, and a tick of a hundredth of a second
  then ends the transition, whose configured length is a second and a half.
\<close>

lemma on_second_screen_next_ticks:
  "CurrentState (Tick 1 on_second_screen) = State_TransitioningScreen \<and>
   TransitionElapsedTime (Tick 1 on_second_screen) = 2 \<and>
   ScreenTransitionPauseSeconds (Tick 1 on_second_screen) = 3 / 2 \<and>
   CurrentState (Tick (1 / 100) (Tick 1 on_second_screen)) = State_PlayingLine"
  by (simp add: on_second_screen_def story3_def player_defs)

text \<open>The debug jump, a sibling of this reset, does set the counter to zero.\<close>

lemma DebugJumpToScreen_resets_transition:
  assumes "bIsPlaying s" and "0 \<le> ScreenIndex"
    and "ScreenIndex < int (length (Screens (CurrentStory s)))"
  shows "TransitionElapsedTime (DebugJumpToScreen ScreenIndex s) = 0"
    and "CurrentState (DebugJumpToScreen ScreenIndex s) = State_TransitioningScreen"
  using assms by (simp_all add: DebugJumpToScreen_def Let_def)

text \<open>The rest of the reset, and the counter it leaves alone, for every state.\<close>

lemma AdvanceToNextScreen_resets:
  assumes "CurrentScreenIndex s + 1 < length (Screens (CurrentStory s))"
  shows "CurrentLineIndex (AdvanceToNextScreen s) = 0"
    and "ScreenElapsedTime (AdvanceToNextScreen s) = 0"
    and "ProcessedTimedEventIndices (AdvanceToNextScreen s) = {}"
    and "LineStartTimes (AdvanceToNextScreen s) =
           replicate (length (Lines (Screens (CurrentStory s) ! (CurrentScreenIndex s + 1)))) (- 1)"
    and "CurrentState (AdvanceToNextScreen s) = State_TransitioningScreen"
    and "TransitionElapsedTime (AdvanceToNextScreen s) = TransitionElapsedTime s"
  using assms by (simp_all add: AdvanceToNextScreen_def Let_def)

text \<open>
  C5, as the claim states it, fails: a player that finished its story is in state
  Completed and no longer playing, and \<^verbatim>\<open>StopStory\<close> returns at its first check; the
  state stays Completed.
\<close>

theorem StopStory_after_completion_counterexample:
  "CurrentState completed_player = State_Completed \<and>
   CurrentState (StopStory completed_player) \<noteq> State_Idle"
  by (simp add: completed_player_def playing_player_def story1_def player_defs)

text \<open>
  C5, amended. After Stop is called while a story is playing, the playback state is Idle,
  the screen, line and pause counters are zero, the fired-event set and the line-start-time
  array are empty, and the player is detached from the ticker. Stop called while no story
  is playing (as after a natural completion) changes nothing.
\<close>

theorem StopStory_effect:
  "(bIsPlaying s \<longrightarrow>
      CurrentState (StopStory s) = State_Idle \<and> \<not> bIsPlaying (StopStory s) \<and>
      \<not> bIsPaused (StopStory s) \<and>
      ScreenElapsedTime (StopStory s) = 0 \<and> LineElapsedTime (StopStory s) = 0 \<and>
      PauseElapsedTime (StopStory s) = 0 \<and> ProcessedTimedEventIndices (StopStory s) = {} \<and>
      LineStartTimes (StopStory s) = [] \<and> CurrentScreenIndex (StopStory s) = 0 \<and>
      CurrentLineIndex (StopStory s) = 0 \<and> \<not> TickerHandleValid (StopStory s)) \<and>
   (\<not> bIsPlaying s \<longrightarrow> StopStory s = s)"
  by (simp add: StopStory_def)

theorem StopStory_effect_witness:
  "bIsPlaying playing_player \<and> TickerHandleValid playing_player \<and>
   CurrentState playing_player = State_PlayingLine \<and>
   CurrentState (StopStory playing_player) = State_Idle \<and>
   LineStartTimes (StopStory playing_player) = [] \<and>
   \<not> TickerHandleValid (StopStory playing_player) \<and>
   \<not> bIsPlaying completed_player \<and> StopStory completed_player = completed_player"
proof -
  have p: "bIsPlaying playing_player"
    by (simp add: playing_player_def story1_def player_defs)
  have t: "TickerHandleValid playing_player \<and> CurrentState playing_player = State_PlayingLine"
    by (simp add: playing_player_def story1_def player_defs)
  have c: "\<not> bIsPlaying completed_player"
    by (simp add: completed_player_def playing_player_def story1_def player_defs)
  show ?thesis
    using p t c StopStory_effect [of playing_player] StopStory_effect [of completed_player]
    by simp
qed

text \<open>
  C8. A tick while the player is not playing, or is paused, leaves the whole player state
  as it was, whatever the time step: no counter moves, no timed event is marked, the
  cursors and the playback state stay.
\<close>

theorem Tick_frozen_when_paused:
  "\<not> bIsPlaying s \<or> bIsPaused s \<Longrightarrow> Tick DeltaTime s = s"
  by (simp add: Tick_def)

theorem Tick_frozen_when_paused_witness:
  "bIsPlaying paused_player \<and> bIsPaused paused_player \<and>
   Tick (1 / 2) paused_player = paused_player \<and>
   Tick (1 / 2) playing_player \<noteq> playing_player"
proof -
  have p: "bIsPlaying paused_player \<and> bIsPaused paused_player"
    by (simp add: paused_player_def playing_player_def story1_def player_defs)
  have q: "LineElapsedTime (Tick (1 / 2) playing_player) \<noteq> LineElapsedTime playing_player
           \<or> CurrentState (Tick (1 / 2) playing_player) \<noteq> CurrentState playing_player"
    by (simp add: playing_player_def story1_def player_defs)
  then have "Tick (1 / 2) playing_player \<noteq> playing_player"
    by auto
  with p Tick_frozen_when_paused [of paused_player "1 / 2"] show ?thesis
    by simp
qed

end
